theory Spec2Isabelle
  imports Complex_Main
begin

section \<open>Conventions of the embedding\<close>

text \<open>
  The C++ type \<open>FLOAT\<close> (and the \<open>float\<close> fields of \<open>DomainBox\<close>) is modelled by
  \<^typ>\<open>real\<close>: arithmetic is exact and rounding is outside the model. A division by zero
  gives an infinity or a NaN in the code; in the smoothing-length solver, where the code can
  reach one, the model follows the branch that the value makes the code take when that is
  determined, and ends with \<open>NonFinite\<close> otherwise.
  C++ \<open>int\<close> counters and indices are modelled by \<^typ>\<open>int\<close>; the particle array is a
  store from indices to particles, so that a write at any index is visible.
  A fixed-size coordinate array such as \<open>r[ndim]\<close> is a function from the index to the value;
  only the indices below \<open>ndim\<close> are ever read or written.
  \<open>ExceptionHandler::raise\<close>, a failed \<open>assert\<close> and an exception thrown by \<open>new[]\<close> end
  the computation: they are the \<open>Inl\<close> results of the functions below.
\<close>

type_synonym vec = "nat \<Rightarrow> real"

datatype error =
    GhostOverflow            \<comment> \<open>"Not enough memory for new ghost" / "... for ghost particles"\<close>
  | HIterationDiverged       \<comment> \<open>"Problem with convergence of h-rho iteration"\<close>
  | AssertionFailed
  | BadAlloc                 \<comment> \<open>\<open>std::bad_alloc\<close> or \<open>std::bad_array_new_length\<close> thrown by \<open>new[]\<close>\<close>
  | NonFinite                \<comment> \<open>a value that is not a finite number decides the run\<close>

text \<open>
  \<open>DotProduct\<close> of InlineFuncs.h. The source tests \<open>ndim\<close> for 1, 2 and 3 and has no
  \<open>return\<close> for another value; the template is only instantiated for these three, and the
  last branch below stands for \<open>ndim == 3\<close>.
\<close>

definition DotProduct :: "vec \<Rightarrow> vec \<Rightarrow> nat \<Rightarrow> real" where
  "DotProduct v1 v2 ndim =
     (if ndim = 1 then v1 0 * v2 0
      else if ndim = 2 then v1 0 * v2 0 + v1 1 * v2 1
      else v1 0 * v2 0 + v1 1 * v2 1 + v1 2 * v2 2)"

section \<open>Domain box and particles\<close>

record DomainBox =
  x_boundary_lhs :: string
  x_boundary_rhs :: string
  y_boundary_lhs :: string
  y_boundary_rhs :: string
  z_boundary_lhs :: string
  z_boundary_rhs :: string
  boxmin :: vec
  boxmax :: vec
  boxsize :: vec

text \<open>
  The values of \<open>itype\<close> that the routines compare with: the twelve ghost kinds of
  \<open>MfvRungeKutta::CopyDataToGhosts\<close> and \<open>dead\<close>; \<open>real_particle\<close> stands for every
  other value.
\<close>

datatype ptype_kind =
    real_particle
  | x_lhs_periodic | x_rhs_periodic | x_lhs_mirror | x_rhs_mirror
  | y_lhs_periodic | y_rhs_periodic | y_lhs_mirror | y_rhs_mirror
  | z_lhs_periodic | z_rhs_periodic | z_lhs_mirror | z_rhs_mirror
  | dead

text \<open>
  The fields of a particle that the ghost and boundary routines touch. The record is
  extensible: every further field of the C++ structure lives in the \<open>more\<close> part and is
  copied by a structure assignment.
\<close>

record Particle =
  part_r :: vec
  part_v :: vec
  part_h :: real
  part_active :: bool
  part_iorig :: int
  part_itype :: ptype_kind

text \<open>The part of the \<open>Sph\<close> object used by the ghost routines of \<open>Simulation\<close>.\<close>

record 'a Sph =
  Nsph :: int
  Nghost :: int
  Nghostmax :: int
  Nsphmax :: int
  Ntot :: int
  sphdata :: "int \<Rightarrow> 'a Particle_scheme"

section \<open>Simulation::CheckBoundaries\<close>

text \<open>The body of the loop, for one particle; the six conditionals run in source order.\<close>

definition wrap_lhs :: "bool \<Rightarrow> nat \<Rightarrow> string \<Rightarrow> DomainBox \<Rightarrow> 'a Particle_scheme \<Rightarrow> 'a Particle_scheme" where
  "wrap_lhs dim_ok k bnd simbox part =
     (if dim_ok \<and> part_r part k < boxmin simbox k then
        (if bnd = ''periodic''
         then part\<lparr>part_r := (part_r part)(k := part_r part k + boxsize simbox k)\<rparr>
         else part)
      else part)"

definition wrap_rhs :: "bool \<Rightarrow> nat \<Rightarrow> string \<Rightarrow> DomainBox \<Rightarrow> 'a Particle_scheme \<Rightarrow> 'a Particle_scheme" where
  "wrap_rhs dim_ok k bnd simbox part =
     (if dim_ok \<and> part_r part k > boxmax simbox k then
        (if bnd = ''periodic''
         then part\<lparr>part_r := (part_r part)(k := part_r part k - boxsize simbox k)\<rparr>
         else part)
      else part)"

definition CheckBoundaries_part :: "nat \<Rightarrow> DomainBox \<Rightarrow> 'a Particle_scheme \<Rightarrow> 'a Particle_scheme" where
  "CheckBoundaries_part ndim simbox part =
     (let p1 = wrap_lhs True 0 (x_boundary_lhs simbox) simbox part;
          p2 = wrap_rhs True 0 (x_boundary_rhs simbox) simbox p1;
          p3 = wrap_lhs (ndim \<ge> 2) 1 (y_boundary_lhs simbox) simbox p2;
          p4 = wrap_rhs (ndim \<ge> 2) 1 (y_boundary_rhs simbox) simbox p3;
          p5 = wrap_lhs (ndim = 3) 2 (z_boundary_lhs simbox) simbox p4;
          p6 = wrap_rhs (ndim = 3) 2 (z_boundary_rhs simbox) simbox p5
      in p6)"

text \<open>\<open>for (i=0; i<sph->Nsph; i++)\<close>: the loop from \<open>i\<close> up to \<open>n\<close>.\<close>

function CheckBoundaries_loop ::
  "nat \<Rightarrow> DomainBox \<Rightarrow> int \<Rightarrow> int \<Rightarrow> (int \<Rightarrow> 'a Particle_scheme) \<Rightarrow> (int \<Rightarrow> 'a Particle_scheme)" where
  "CheckBoundaries_loop ndim simbox i n sd =
     (if i < n
      then CheckBoundaries_loop ndim simbox (i + 1) n (sd(i := CheckBoundaries_part ndim simbox (sd i)))
      else sd)"
  by pat_completeness auto
termination
  by (relation "measure (\<lambda>(ndim, simbox, i, n, sd). nat (n - i))") auto

declare CheckBoundaries_loop.simps [simp del]

definition CheckBoundaries :: "nat \<Rightarrow> DomainBox \<Rightarrow> 'a Sph \<Rightarrow> 'a Sph" where
  "CheckBoundaries ndim simbox sph =
     sph\<lparr>sphdata := CheckBoundaries_loop ndim simbox 0 (Nsph sph) (sphdata sph)\<rparr>"

text \<open>A dimension is closed when either of its faces is periodic or mirror.\<close>

definition boundary_lhs :: "DomainBox \<Rightarrow> nat \<Rightarrow> string" where
  "boundary_lhs simbox k =
     (if k = 0 then x_boundary_lhs simbox else if k = 1 then y_boundary_lhs simbox
      else z_boundary_lhs simbox)"

definition boundary_rhs :: "DomainBox \<Rightarrow> nat \<Rightarrow> string" where
  "boundary_rhs simbox k =
     (if k = 0 then x_boundary_rhs simbox else if k = 1 then y_boundary_rhs simbox
      else z_boundary_rhs simbox)"

definition closed_face :: "string \<Rightarrow> bool" where
  "closed_face b = (b = ''periodic'' \<or> b = ''mirror'')"

definition closed_dim :: "DomainBox \<Rightarrow> nat \<Rightarrow> bool" where
  "closed_dim simbox k = (closed_face (boundary_lhs simbox k) \<or> closed_face (boundary_rhs simbox k))"

text \<open>A one-dimensional unit box with mirror faces, and a particle that has left it.\<close>

definition mirror_box :: DomainBox where
  "mirror_box = \<lparr>x_boundary_lhs = ''mirror'', x_boundary_rhs = ''mirror'',
     y_boundary_lhs = ''open'', y_boundary_rhs = ''open'',
     z_boundary_lhs = ''open'', z_boundary_rhs = ''open'',
     boxmin = (\<lambda>k. 0), boxmax = (\<lambda>k. 1), boxsize = (\<lambda>k. 1)\<rparr>"

definition periodic_box :: DomainBox where
  "periodic_box = \<lparr>x_boundary_lhs = ''periodic'', x_boundary_rhs = ''periodic'',
     y_boundary_lhs = ''open'', y_boundary_rhs = ''open'',
     z_boundary_lhs = ''open'', z_boundary_rhs = ''open'',
     boxmin = (\<lambda>k. 0), boxmax = (\<lambda>k. 1), boxsize = (\<lambda>k. 1)\<rparr>"

definition escaped_part :: Particle where
  "escaped_part = \<lparr>part_r = (\<lambda>k. - 1 / 2), part_v = (\<lambda>k. - 1), part_h = 1 / 10,
     part_active = True, part_iorig = 0, part_itype = real_particle\<rparr>"

definition one_part_sph :: "unit Sph" where
  "one_part_sph = \<lparr>Nsph = 1, Nghost = 0, Nghostmax = 1, Nsphmax = 2, Ntot = 1,
     sphdata = (\<lambda>i. escaped_part)\<rparr>"

section \<open>Simulation::CreateGhostParticle and SearchGhostParticles\<close>

text \<open>\<open>static const FLOAT ghost_range = 1.1\<close>\<close>

definition ghost_range :: real where
  "ghost_range = 11 / 10"

text \<open>
  The assignments run in source order on the store, so that a read of \<open>sphdata[i]\<close> after
  the write of the new slot sees that write. The check on entry is the source's
  \<open>Nghost > Nghostmax\<close>.
\<close>

definition CreateGhostParticle ::
  "'a Sph \<Rightarrow> int \<Rightarrow> nat \<Rightarrow> real \<Rightarrow> real \<Rightarrow> real \<Rightarrow> error + 'a Sph" where
  "CreateGhostParticle sph i k rk vk bdist =
     (if Nghost sph > Nghostmax sph then Inl GhostOverflow
      else
        let slot = Nsph sph + Nghost sph;
            sd0 = sphdata sph;
            sd1 = sd0(slot := sd0 i);
            sd2 = sd1(slot := (sd1 slot)\<lparr>part_r := (part_r (sd1 slot))(k := rk)\<rparr>);
            sd3 = sd2(slot := (sd2 slot)\<lparr>part_v := (part_v (sd2 slot))(k := vk)\<rparr>);
            sd4 = sd3(slot := (sd3 slot)\<lparr>part_active := False\<rparr>);
            sd5 = (if i \<ge> Nsph sph
                   then sd4(slot := (sd4 slot)\<lparr>part_iorig := part_iorig (sd4 i)\<rparr>)
                   else sd4(slot := (sd4 slot)\<lparr>part_iorig := i\<rparr>))
        in Inr (sph\<lparr>sphdata := sd5, Nghost := Nghost sph + 1\<rparr>))"

text \<open>
  The body of the loop over \<open>i\<close> for the boundary dimension \<open>k\<close>; the source writes this
  block out three times, for \<open>k = 0, 1, 2\<close>, with the boundary strings of that dimension.
\<close>

definition ghost_lhs ::
  "real \<Rightarrow> DomainBox \<Rightarrow> nat \<Rightarrow> string \<Rightarrow> int \<Rightarrow> 'a Sph \<Rightarrow> error + 'a Sph" where
  "ghost_lhs kernrange simbox k lhs i sph =
     (if part_r (sphdata sph i) k < boxmin simbox k + ghost_range * kernrange * part_h (sphdata sph i)
      then
        (case (if lhs = ''periodic''
               then CreateGhostParticle sph i k (part_r (sphdata sph i) k + boxsize simbox k)
                      (part_v (sphdata sph i) k) (part_r (sphdata sph i) k - boxmin simbox k)
               else Inr sph) of
           Inl e \<Rightarrow> Inl e
         | Inr s \<Rightarrow>
             if lhs = ''mirror''
             then CreateGhostParticle s i k (2 * boxmin simbox k - part_r (sphdata s i) k)
                    (- part_v (sphdata s i) k) (part_r (sphdata s i) k - boxmin simbox k)
             else Inr s)
      else Inr sph)"

definition ghost_rhs ::
  "real \<Rightarrow> DomainBox \<Rightarrow> nat \<Rightarrow> string \<Rightarrow> int \<Rightarrow> 'a Sph \<Rightarrow> error + 'a Sph" where
  "ghost_rhs kernrange simbox k rhs i sph =
     (if part_r (sphdata sph i) k > boxmax simbox k - ghost_range * kernrange * part_h (sphdata sph i)
      then
        (case (if rhs = ''periodic''
               then CreateGhostParticle sph i k (part_r (sphdata sph i) k - boxsize simbox k)
                      (part_v (sphdata sph i) k) (boxmax simbox k - part_r (sphdata sph i) k)
               else Inr sph) of
           Inl e \<Rightarrow> Inl e
         | Inr s \<Rightarrow>
             if rhs = ''mirror''
             then CreateGhostParticle s i k (2 * boxmax simbox k - part_r (sphdata s i) k)
                    (- part_v (sphdata s i) k) (boxmax simbox k - part_r (sphdata s i) k)
             else Inr s)
      else Inr sph)"

definition ghost_body ::
  "real \<Rightarrow> DomainBox \<Rightarrow> nat \<Rightarrow> string \<Rightarrow> string \<Rightarrow> int \<Rightarrow> 'a Sph \<Rightarrow> error + 'a Sph" where
  "ghost_body kernrange simbox k lhs rhs i sph =
     (case ghost_lhs kernrange simbox k lhs i sph of
        Inl e \<Rightarrow> Inl e
      | Inr s \<Rightarrow> ghost_rhs kernrange simbox k rhs i s)"

text \<open>
  \<open>for (i=0; i<sph->Ntot; i++)\<close>; the body never assigns \<open>Ntot\<close>, so the bound \<open>n\<close> is its
  value on entry.
\<close>

function ghost_loop ::
  "real \<Rightarrow> DomainBox \<Rightarrow> nat \<Rightarrow> string \<Rightarrow> string \<Rightarrow> int \<Rightarrow> int \<Rightarrow> 'a Sph \<Rightarrow> error + 'a Sph" where
  "ghost_loop kernrange simbox k lhs rhs i n sph =
     (if i < n
      then (case ghost_body kernrange simbox k lhs rhs i sph of
              Inl e \<Rightarrow> Inl e
            | Inr s \<Rightarrow> ghost_loop kernrange simbox k lhs rhs (i + 1) n s)
      else Inr sph)"
  by pat_completeness auto
termination
  by (relation "measure (\<lambda>(kernrange, simbox, k, lhs, rhs, i, n, sph). nat (n - i))") auto

declare ghost_loop.simps [simp del]

definition ghost_dim ::
  "bool \<Rightarrow> real \<Rightarrow> DomainBox \<Rightarrow> nat \<Rightarrow> string \<Rightarrow> string \<Rightarrow> 'a Sph \<Rightarrow> error + 'a Sph" where
  "ghost_dim dim_ok kernrange simbox k lhs rhs sph =
     (if dim_ok \<and> \<not> (lhs = ''open'' \<and> rhs = ''open'')
      then (case ghost_loop kernrange simbox k lhs rhs 0 (Ntot sph) sph of
              Inl e \<Rightarrow> Inl e
            | Inr s \<Rightarrow> Inr (s\<lparr>Ntot := Nsph s + Nghost s\<rparr>))
      else Inr sph)"

text \<open>\<open>kernrange\<close> is \<open>sph->kernp->kernrange*sph->kernfac\<close>, a parameter here.\<close>

definition SearchGhostParticles ::
  "nat \<Rightarrow> real \<Rightarrow> DomainBox \<Rightarrow> 'a Sph \<Rightarrow> error + 'a Sph" where
  "SearchGhostParticles ndim kernrange simbox sph =
     (let sph0 = sph\<lparr>Nghost := 0, Nghostmax := Nsphmax sph - Nsph sph, Ntot := Nsph sph\<rparr>
      in if x_boundary_lhs simbox = ''open'' \<and> x_boundary_rhs simbox = ''open'' \<and>
            y_boundary_lhs simbox = ''open'' \<and> y_boundary_rhs simbox = ''open'' \<and>
            z_boundary_lhs simbox = ''open'' \<and> z_boundary_rhs simbox = ''open''
         then Inr sph0
         else
           (case ghost_dim True kernrange simbox 0
                   (x_boundary_lhs simbox) (x_boundary_rhs simbox) sph0 of
              Inl e \<Rightarrow> Inl e
            | Inr s1 \<Rightarrow>
           (case ghost_dim (ndim \<ge> 2) kernrange simbox 1
                   (y_boundary_lhs simbox) (y_boundary_rhs simbox) s1 of
              Inl e \<Rightarrow> Inl e
            | Inr s2 \<Rightarrow>
           (case ghost_dim (ndim = 3) kernrange simbox 2
                   (z_boundary_lhs simbox) (z_boundary_rhs simbox) s2 of
              Inl e \<Rightarrow> Inl e
            | Inr s3 \<Rightarrow>
                if Ntot s3 > Nsphmax s3 then Inl GhostOverflow else Inr s3))))"

section \<open>Simulation::CopySphDataToGhosts\<close>

text \<open>
  The ghost keeps the first \<open>ndim\<close> components of its own position and velocity (saved in
  \<open>rp\<close>, \<open>vp\<close> and written back); everything else is the structure copy of the parent.
\<close>

definition CopySphDataToGhosts_body ::
  "nat \<Rightarrow> int \<Rightarrow> int \<Rightarrow> (int \<Rightarrow> 'a Particle_scheme) \<Rightarrow> (int \<Rightarrow> 'a Particle_scheme)" where
  "CopySphDataToGhosts_body ndim nsph j sd =
     (let i = nsph + j;
          iorig = part_iorig (sd i);
          rp = part_r (sd i);
          vp = part_v (sd i);
          sd1 = sd(i := sd iorig);
          sd2 = sd1(i := (sd1 i)\<lparr>part_iorig := iorig\<rparr>);
          sd3 = sd2(i := (sd2 i)\<lparr>part_active := False\<rparr>);
          sd4 = sd3(i := (sd3 i)\<lparr>part_r := (\<lambda>k. if k < ndim then rp k else part_r (sd3 i) k)\<rparr>);
          sd5 = sd4(i := (sd4 i)\<lparr>part_v := (\<lambda>k. if k < ndim then vp k else part_v (sd4 i) k)\<rparr>)
      in sd5)"

function CopySphDataToGhosts_loop ::
  "nat \<Rightarrow> int \<Rightarrow> int \<Rightarrow> int \<Rightarrow> (int \<Rightarrow> 'a Particle_scheme) \<Rightarrow> (int \<Rightarrow> 'a Particle_scheme)" where
  "CopySphDataToGhosts_loop ndim nsph j n sd =
     (if j < n
      then CopySphDataToGhosts_loop ndim nsph (j + 1) n (CopySphDataToGhosts_body ndim nsph j sd)
      else sd)"
  by pat_completeness auto
termination
  by (relation "measure (\<lambda>(ndim, nsph, j, n, sd). nat (n - j))") auto

declare CopySphDataToGhosts_loop.simps [simp del]

definition CopySphDataToGhosts :: "nat \<Rightarrow> 'a Sph \<Rightarrow> 'a Sph" where
  "CopySphDataToGhosts ndim sph =
     sph\<lparr>sphdata := CopySphDataToGhosts_loop ndim (Nsph sph) 0 (Nghost sph) (sphdata sph)\<rparr>"

section \<open>MfvRungeKutta::CopyDataToGhosts\<close>

text \<open>The chain of conditionals that moves the reloaded ghost, in source order.\<close>

definition shift_r :: "nat \<Rightarrow> real \<Rightarrow> 'a Particle_scheme \<Rightarrow> 'a Particle_scheme" where
  "shift_r k d p = p\<lparr>part_r := (part_r p)(k := part_r p k + d)\<rparr>"

definition mirror_rv :: "nat \<Rightarrow> real \<Rightarrow> 'a Particle_scheme \<Rightarrow> 'a Particle_scheme" where
  "mirror_rv k bound p =
     (let p1 = p\<lparr>part_r := (part_r p)(k := 2 * bound - part_r p k)\<rparr>
      in p1\<lparr>part_v := (part_v p1)(k := - part_v p1 k)\<rparr>)"

definition ghost_modify ::
  "nat \<Rightarrow> DomainBox \<Rightarrow> ptype_kind \<Rightarrow> 'a Particle_scheme \<Rightarrow> 'a Particle_scheme" where
  "ghost_modify ndim simbox itype p =
     (if itype = x_lhs_periodic then shift_r 0 (boxsize simbox 0) p
      else if itype = x_rhs_periodic then shift_r 0 (- boxsize simbox 0) p
      else if itype = x_lhs_mirror then mirror_rv 0 (boxmin simbox 0) p
      else if itype = x_rhs_mirror then mirror_rv 0 (boxmax simbox 0) p
      else if ndim > 1 \<and> itype = y_lhs_periodic then shift_r 1 (boxsize simbox 1) p
      else if ndim > 1 \<and> itype = y_rhs_periodic then shift_r 1 (- boxsize simbox 1) p
      else if ndim > 1 \<and> itype = y_lhs_mirror then mirror_rv 1 (boxmin simbox 1) p
      else if ndim > 1 \<and> itype = y_rhs_mirror then mirror_rv 1 (boxmax simbox 1) p
      else if ndim = 3 \<and> itype = z_lhs_periodic then shift_r 2 (boxsize simbox 2) p
      else if ndim = 3 \<and> itype = z_rhs_periodic then shift_r 2 (- boxsize simbox 2) p
      else if ndim = 3 \<and> itype = z_lhs_mirror then mirror_rv 2 (boxmin simbox 2) p
      else if ndim = 3 \<and> itype = z_rhs_mirror then mirror_rv 2 (boxmax simbox 2) p
      else p)"

definition CopyDataToGhosts_body ::
  "nat \<Rightarrow> DomainBox \<Rightarrow> int \<Rightarrow> int \<Rightarrow> (int \<Rightarrow> 'a Particle_scheme) \<Rightarrow> (int \<Rightarrow> 'a Particle_scheme)" where
  "CopyDataToGhosts_body ndim simbox nhydro j pd =
     (let i = nhydro + j;
          iorig = part_iorig (pd i);
          itype = part_itype (pd i);
          pd1 = pd(i := pd iorig);
          pd2 = pd1(i := (pd1 i)\<lparr>part_iorig := iorig\<rparr>);
          pd3 = pd2(i := (pd2 i)\<lparr>part_itype := itype\<rparr>);
          pd4 = pd3(i := (pd3 i)\<lparr>part_active := False\<rparr>)
      in pd4(i := ghost_modify ndim simbox itype (pd4 i)))"

function CopyDataToGhosts_loop ::
  "nat \<Rightarrow> DomainBox \<Rightarrow> int \<Rightarrow> int \<Rightarrow> int \<Rightarrow> (int \<Rightarrow> 'a Particle_scheme) \<Rightarrow> (int \<Rightarrow> 'a Particle_scheme)" where
  "CopyDataToGhosts_loop ndim simbox nhydro j n pd =
     (if j < n
      then CopyDataToGhosts_loop ndim simbox nhydro (j + 1) n
             (CopyDataToGhosts_body ndim simbox nhydro j pd)
      else pd)"
  by pat_completeness auto
termination
  by (relation "measure (\<lambda>(ndim, simbox, nhydro, j, n, pd). nat (n - j))") auto

declare CopyDataToGhosts_loop.simps [simp del]

text \<open>\<open>nhydro\<close> and \<open>nghost\<close> are \<open>this->Nhydro\<close> and \<open>this->NPeriodicGhost\<close>.\<close>

definition CopyDataToGhosts ::
  "nat \<Rightarrow> int \<Rightarrow> int \<Rightarrow> DomainBox \<Rightarrow> (int \<Rightarrow> 'a Particle_scheme) \<Rightarrow> (int \<Rightarrow> 'a Particle_scheme)" where
  "CopyDataToGhosts ndim nhydro nghost simbox partdata =
     CopyDataToGhosts_loop ndim simbox nhydro 0 nghost partdata"

text \<open>
  The transform that the specification attaches to a ghost kind: a shift by the box size on
  the axis of a periodic kind, a reflection \<open>2 * bound - r\<close> on the axis of a mirror kind,
  and the sign of the velocity flipped on the axis of a mirror kind.
\<close>

fun ghost_axis :: "ptype_kind \<Rightarrow> nat option" where
  "ghost_axis x_lhs_periodic = Some 0" | "ghost_axis x_rhs_periodic = Some 0"
| "ghost_axis x_lhs_mirror = Some 0" | "ghost_axis x_rhs_mirror = Some 0"
| "ghost_axis y_lhs_periodic = Some 1" | "ghost_axis y_rhs_periodic = Some 1"
| "ghost_axis y_lhs_mirror = Some 1" | "ghost_axis y_rhs_mirror = Some 1"
| "ghost_axis z_lhs_periodic = Some 2" | "ghost_axis z_rhs_periodic = Some 2"
| "ghost_axis z_lhs_mirror = Some 2" | "ghost_axis z_rhs_mirror = Some 2"
| "ghost_axis real_particle = None" | "ghost_axis dead = None"

definition ghost_is_mirror :: "ptype_kind \<Rightarrow> bool" where
  "ghost_is_mirror t = (t \<in> {x_lhs_mirror, x_rhs_mirror, y_lhs_mirror, y_rhs_mirror,
     z_lhs_mirror, z_rhs_mirror})"

definition ghost_is_lhs :: "ptype_kind \<Rightarrow> bool" where
  "ghost_is_lhs t = (t \<in> {x_lhs_periodic, x_lhs_mirror, y_lhs_periodic, y_lhs_mirror,
     z_lhs_periodic, z_lhs_mirror})"

definition spec_transform_r :: "DomainBox \<Rightarrow> ptype_kind \<Rightarrow> vec \<Rightarrow> vec" where
  "spec_transform_r simbox t rr =
     (case ghost_axis t of
        None \<Rightarrow> rr
      | Some d \<Rightarrow>
          if ghost_is_mirror t
          then rr(d := 2 * (if ghost_is_lhs t then boxmin simbox d else boxmax simbox d) - rr d)
          else rr(d := (if ghost_is_lhs t then rr d + boxsize simbox d else rr d - boxsize simbox d)))"

definition spec_transform_v :: "ptype_kind \<Rightarrow> vec \<Rightarrow> vec" where
  "spec_transform_v t vv =
     (case ghost_axis t of
        None \<Rightarrow> vv
      | Some d \<Rightarrow> if ghost_is_mirror t then vv(d := - vv d) else vv)"

text \<open>Every ghost slot names a real particle as its original and is inactive.\<close>

definition ghosts_ok :: "int \<Rightarrow> int \<Rightarrow> (int \<Rightarrow> 'a Particle_scheme) \<Rightarrow> bool" where
  "ghosts_ok nreal nghost sd =
     (\<forall>j \<in> {nreal ..< nreal + nghost}.
        0 \<le> part_iorig (sd j) \<and> part_iorig (sd j) < nreal \<and> \<not> part_active (sd j))"

text \<open>
  One real particle in the middle of the periodic unit box whose kernel reaches both faces,
  in a particle array with room for one ghost only (\<open>Nsphmax = 2\<close>).
\<close>

definition mid_part :: Particle where
  "mid_part = \<lparr>part_r = (\<lambda>k. 1 / 2), part_v = (\<lambda>k. 3), part_h = 1,
     part_active = True, part_iorig = 0, part_itype = real_particle\<rparr>"

definition tight_sph :: "unit Sph" where
  "tight_sph = \<lparr>Nsph = 1, Nghost = 0, Nghostmax = 1, Nsphmax = 2, Ntot = 1,
     sphdata = (\<lambda>i. mid_part)\<rparr>"

text \<open>
  A two-dimensional unit box, periodic in x and y, with one particle near the lower left
  corner: the search makes an x-ghost, a y-ghost and the corner ghost cloned from the x-ghost.
\<close>

definition xy_box :: DomainBox where
  "xy_box = \<lparr>x_boundary_lhs = ''periodic'', x_boundary_rhs = ''periodic'',
     y_boundary_lhs = ''periodic'', y_boundary_rhs = ''periodic'',
     z_boundary_lhs = ''open'', z_boundary_rhs = ''open'',
     boxmin = (\<lambda>k. 0), boxmax = (\<lambda>k. 1), boxsize = (\<lambda>k. 1)\<rparr>"

definition corner_part :: Particle where
  "corner_part = \<lparr>part_r = (\<lambda>k. 1 / 20), part_v = (\<lambda>k. 3), part_h = 1 / 25,
     part_active = True, part_iorig = 0, part_itype = real_particle\<rparr>"

definition corner_sph :: "unit Sph" where
  "corner_sph = \<lparr>Nsph = 1, Nghost = 0, Nghostmax = 0, Nsphmax = 8, Ntot = 1,
     sphdata = (\<lambda>i. corner_part)\<rparr>"

text \<open>
  A real particle at \<open>x = 1/5\<close> and its ghost across the left periodic face, still at
  \<open>x = 11/10\<close>: \<open>CreateGhostParticle\<close> made it as the image \<open>r + boxsize\<close> of the parent's
  earlier position \<open>1/10\<close>, and the parent has moved since. (\<open>Simulation\<close> keeps no ghost
  kind in the particle.)
\<close>

definition drifted_parent :: Particle where
  "drifted_parent = \<lparr>part_r = (\<lambda>k. 1 / 5), part_v = (\<lambda>k. 5), part_h = 1 / 4,
     part_active = True, part_iorig = 0, part_itype = real_particle\<rparr>"

definition stale_ghost :: Particle where
  "stale_ghost = \<lparr>part_r = (\<lambda>k. 11 / 10), part_v = (\<lambda>k. 4), part_h = 1 / 2,
     part_active = False, part_iorig = 0, part_itype = real_particle\<rparr>"

definition drifted_sph :: "unit Sph" where
  "drifted_sph = \<lparr>Nsph = 1, Nghost = 1, Nghostmax = 1, Nsphmax = 2, Ntot = 2,
     sphdata = (\<lambda>i. if i = 1 then stale_ghost else drifted_parent)\<rparr>"

definition mirror_ghost :: Particle where
  "mirror_ghost = \<lparr>part_r = (\<lambda>k. 7), part_v = (\<lambda>k. 4), part_h = 1 / 2,
     part_active = True, part_iorig = 0, part_itype = x_lhs_mirror\<rparr>"

definition mirror_partdata :: "int \<Rightarrow> Particle" where
  "mirror_partdata = (\<lambda>i. if i = 1 then mirror_ghost else drifted_parent)"

section \<open>MfvRungeKutta::ComputeH\<close>

text \<open>The fields of \<open>MeshlessFVParticle\<close> used by the smoothing-length solver and the fluxes.\<close>

record MeshlessFVParticle = Particle +
  part_sinkid :: int
  part_ptype :: nat
  part_m :: real
  part_ndens :: real
  part_invomega :: real
  part_zeta :: real
  part_invh :: real
  part_hfactor :: real
  part_volume :: real
  part_rho :: real
  part_invrho :: real
  part_hrangesqd :: real
  part_div_v :: real
  part_gpot :: real
  part_potmin :: bool
  part_B :: "nat \<Rightarrow> nat \<Rightarrow> real"
  part_Wprim :: "nat \<Rightarrow> real"
  part_dQdt :: "nat \<Rightarrow> real"

text \<open>
  The members of the \<open>MfvRungeKutta\<close> object that the routines read. The kernel, the
  thermal update, the slope limiter and the Riemann solver are collaborators whose code is
  not part of these routines: they are function-valued fields. \<open>c_pow\<close> and \<open>c_powf\<close> are
  the C library's \<open>pow\<close> and \<open>powf\<close>; \<open>mfv_ndim\<close> is the template parameter \<open>ndim\<close>.
  The limiter returns its output array \<open>dW\<close> (its other output, \<open>gradW\<close>, only feeds a
  diagnostic print); the Riemann solver returns its output array \<open>flux\<close>.
\<close>

record 'a MfvRungeKutta =
  mfv_ndim :: nat
  h_fac :: real
  h_converge :: real
  hmin_sink :: real
  create_sinks :: int
  kernfacsqd :: real
  invndim :: real
  small_number :: real
  kern_w0_s2 :: "real \<Rightarrow> real"
  kern_womega_s2 :: "real \<Rightarrow> real"
  kern_wzeta_s2 :: "real \<Rightarrow> real"
  kern_kernrangesqd :: real
  c_pow :: "real \<Rightarrow> real \<Rightarrow> real"
  c_powf :: "real \<Rightarrow> real \<Rightarrow> real"
  ComputeThermalProperties :: "'a MeshlessFVParticle_scheme \<Rightarrow> 'a MeshlessFVParticle_scheme"
  UpdatePrimitiveVector :: "'a MeshlessFVParticle_scheme \<Rightarrow> 'a MeshlessFVParticle_scheme"
  nvar :: nat
  irho :: nat
  ipress :: nat
  limiter_ComputeLimitedSlopes ::
    "'a MeshlessFVParticle_scheme \<Rightarrow> 'a MeshlessFVParticle_scheme \<Rightarrow> vec \<Rightarrow> (nat \<Rightarrow> real)"
  riemann_ComputeFluxes ::
    "(nat \<Rightarrow> real) \<Rightarrow> (nat \<Rightarrow> real) \<Rightarrow> vec \<Rightarrow> vec \<Rightarrow> (nat \<Rightarrow> vec)"

definition iteration_max :: int where
  "iteration_max = 30"

text \<open>
  The first half of the loop body: the sums over the neighbours for the current \<open>h\<close>, up to
  the assignment of \<open>invrho\<close>. The result carries the local \<open>invhsqd\<close>.
\<close>

definition ComputeH_neib ::
  "'a MfvRungeKutta \<Rightarrow> (nat \<Rightarrow> real) \<Rightarrow> (nat \<Rightarrow> real) \<Rightarrow> real \<Rightarrow> nat \<Rightarrow>
   'a MeshlessFVParticle_scheme \<Rightarrow> 'a MeshlessFVParticle_scheme" where
  "ComputeH_neib cfg m drsqd invhsqd j part =
     (let ssqd = drsqd j * invhsqd;
          p1 = part\<lparr>part_ndens := part_ndens part + kern_w0_s2 cfg ssqd\<rparr>;
          p2 = p1\<lparr>part_invomega := part_invomega p1 + part_invh p1 * kern_womega_s2 cfg ssqd\<rparr>
      in p2\<lparr>part_zeta := part_zeta p2 + m j * kern_wzeta_s2 cfg ssqd\<rparr>)"

definition ComputeH_density ::
  "'a MfvRungeKutta \<Rightarrow> int \<Rightarrow> (nat \<Rightarrow> real) \<Rightarrow> (nat \<Rightarrow> real) \<Rightarrow>
   'a MeshlessFVParticle_scheme \<Rightarrow> 'a MeshlessFVParticle_scheme \<times> real" where
  "ComputeH_density cfg Nneib m drsqd part =
     (let p1 = part\<lparr>part_ndens := 0, part_invomega := 0, part_zeta := 0,
                     part_invh := 1 / part_h part\<rparr>;
          p2 = p1\<lparr>part_hfactor := c_pow cfg (part_invh p1) (real (mfv_ndim cfg))\<rparr>;
          invhsqd = part_invh p2 * part_invh p2;
          p3 = fold (ComputeH_neib cfg m drsqd invhsqd) [0 ..< nat Nneib] p2;
          p4 = p3\<lparr>part_ndens := part_ndens p3 * part_hfactor p3\<rparr>;
          p5 = p4\<lparr>part_invomega := part_invomega p4 * part_hfactor p4\<rparr>;
          p6 = p5\<lparr>part_zeta := part_zeta p5 * invhsqd\<rparr>;
          p7 = p6\<lparr>part_volume := 1 / part_ndens p6\<rparr>;
          p8 = p7\<lparr>part_rho := part_m p7 * part_ndens p7\<rparr>;
          p9 = (if part_rho p8 > 0 then p8\<lparr>part_invrho := 1 / part_rho p8\<rparr> else p8)
      in (p9, invhsqd))"

text \<open>The test that leaves the loop by \<open>break\<close>.\<close>

definition h_converged :: "'a MfvRungeKutta \<Rightarrow> real \<Rightarrow> 'a MeshlessFVParticle_scheme \<Rightarrow> bool" where
  "h_converged cfg h_lower_bound part =
     (part_rho part > 0 \<and> part_h part > h_lower_bound \<and>
      \<bar>part_h part - h_fac cfg * c_pow cfg (part_volume part) (invndim cfg)\<bar> < h_converge cfg)"

text \<open>
  The update of \<open>h\<close> and of the bracket, given the incremented iteration counter; the last
  branch raises. The result is \<open>(h_lower_bound, h_upper_bound, part)\<close>.
\<close>

definition h_update ::
  "'a MfvRungeKutta \<Rightarrow> int \<Rightarrow> real \<Rightarrow> real \<Rightarrow> 'a MeshlessFVParticle_scheme \<Rightarrow>
   error + (real \<times> real \<times> 'a MeshlessFVParticle_scheme)" where
  "h_update cfg iteration h_lower_bound h_upper_bound part =
     (if iteration < iteration_max then
        Inr (h_lower_bound, h_upper_bound,
             part\<lparr>part_h := h_fac cfg * c_pow cfg (part_volume part) (invndim cfg)\<rparr>)
      else if iteration = iteration_max then
        Inr (h_lower_bound, h_upper_bound,
             part\<lparr>part_h := 0.5 * (h_lower_bound + h_upper_bound)\<rparr>)
      else if iteration < 5 * iteration_max then
        (if part_ndens part < small_number cfg \<or>
            part_ndens part * c_pow cfg (part_h part) (real (mfv_ndim cfg)) >
              c_pow cfg (h_fac cfg) (real (mfv_ndim cfg))
         then Inr (h_lower_bound, part_h part,
                   part\<lparr>part_h := 0.5 * (h_lower_bound + part_h part)\<rparr>)
         else Inr (part_h part, h_upper_bound,
                   part\<lparr>part_h := 0.5 * (part_h part + h_upper_bound)\<rparr>))
      else Inl HIterationDiverged)"

text \<open>
  One pass through the body of the \<open>do \<dots> while\<close> loop, for the iteration counter on entry,
  and how the pass ends.

  When the sums leave \<open>ndens = 0\<close> the code has \<open>volume = 1.0/0.0\<close>, which is \<open>+inf\<close> for
  \<open>h > 0\<close>. The convergence test fails (\<open>rho = 0\<close>). In the fixed-point phase the new \<open>h\<close>
  is \<open>h_fac * pow(+inf, invndim)\<close>, which is \<open>+inf\<close> for positive \<open>h_fac\<close> and \<open>invndim\<close>, so
  that \<open>part.h > hmax\<close> holds and the routine returns 0; the particle handed back then holds
  \<open>volume\<close> and \<open>h\<close> that are not numbers of the model (the caller drops it). From the
  30th pass on the update does not read \<open>volume\<close>.
\<close>

datatype 'p h_step =
    Converged 'p real                \<comment> \<open>\<open>break\<close>: particle and \<open>invhsqd\<close>\<close>
  | ListTooSmall 'p                  \<comment> \<open>\<open>return 0\<close>\<close>
  | Again int real real 'p           \<comment> \<open>the loop condition holds: counter, bounds, particle\<close>
  | LeftBracket real 'p real         \<comment> \<open>the loop condition fails: lower bound, particle, \<open>invhsqd\<close>\<close>

definition ComputeH_step ::
  "'a MfvRungeKutta \<Rightarrow> int \<Rightarrow> real \<Rightarrow> (nat \<Rightarrow> real) \<Rightarrow> (nat \<Rightarrow> real) \<Rightarrow>
   int \<Rightarrow> real \<Rightarrow> real \<Rightarrow> 'a MeshlessFVParticle_scheme \<Rightarrow>
   error + 'a MeshlessFVParticle_scheme h_step" where
  "ComputeH_step cfg Nneib hmax m drsqd iteration h_lower_bound h_upper_bound part =
     (let p = fst (ComputeH_density cfg Nneib m drsqd part);
          invhsqd = snd (ComputeH_density cfg Nneib m drsqd part)
      in if h_converged cfg h_lower_bound p then Inr (Converged p invhsqd)
         else if part_ndens p = 0 \<and> iteration + 1 < iteration_max then
           (if 0 < h_fac cfg \<and> 0 < invndim cfg \<and> 0 < part_invh p
            then Inr (ListTooSmall p) else Inl NonFinite)
         else
           (case h_update cfg (iteration + 1) h_lower_bound h_upper_bound p of
              Inl e \<Rightarrow> Inl e
            | Inr (lo, hi, p') \<Rightarrow>
                if part_h p' > hmax then Inr (ListTooSmall p')
                else if part_h p' > lo \<and> part_h p' < hi then Inr (Again (iteration + 1) lo hi p')
                else Inr (LeftBracket lo p' invhsqd)))"

text \<open>
  What the loop hands to the code after it: the particle, the lower bound and \<open>invhsqd\<close>.
  A pass that starts with \<open>h = 0\<close> divides by it (\<open>invh = 1.0/part.h\<close>) and is not followed.
\<close>

datatype 'p h_loop_end =
    Return0 'p
  | LoopDone 'p real real

function ComputeH_loop ::
  "'a MfvRungeKutta \<Rightarrow> int \<Rightarrow> real \<Rightarrow> (nat \<Rightarrow> real) \<Rightarrow> (nat \<Rightarrow> real) \<Rightarrow>
   int \<Rightarrow> real \<Rightarrow> real \<Rightarrow> 'a MeshlessFVParticle_scheme \<Rightarrow>
   error + 'a MeshlessFVParticle_scheme h_loop_end" where
  "ComputeH_loop cfg Nneib hmax m drsqd iteration h_lower_bound h_upper_bound part =
     (if part_h part = 0 then Inl NonFinite
      else
        (case ComputeH_step cfg Nneib hmax m drsqd iteration h_lower_bound h_upper_bound part of
           Inl e \<Rightarrow> Inl e
         | Inr (Converged p invhsqd) \<Rightarrow> Inr (LoopDone p h_lower_bound invhsqd)
         | Inr (ListTooSmall p) \<Rightarrow> Inr (Return0 p)
         | Inr (LeftBracket lo p invhsqd) \<Rightarrow> Inr (LoopDone p lo invhsqd)
         | Inr (Again it lo hi p) \<Rightarrow> ComputeH_loop cfg Nneib hmax m drsqd it lo hi p))"
  by pat_completeness auto
termination
  by (relation "measure (\<lambda>(cfg, Nneib, hmax, m, drsqd, iteration, lo, hi, part).
        nat (5 * iteration_max - iteration))")
    (auto simp: ComputeH_step_def h_update_def Let_def iteration_max_def
      split: if_splits sum.splits prod.splits)

declare ComputeH_loop.simps [simp del]

text \<open>
  The body of the loop over the neighbours that clears \<open>potmin\<close>; \<open>invhsqd\<close> is the value
  left by the last pass of the iteration loop.
\<close>

definition potmin_neib ::
  "'a MfvRungeKutta \<Rightarrow> (nat \<Rightarrow> real) \<Rightarrow> (nat \<Rightarrow> real) \<Rightarrow> real \<Rightarrow> nat \<Rightarrow>
   'a MeshlessFVParticle_scheme \<Rightarrow> 'a MeshlessFVParticle_scheme" where
  "potmin_neib cfg drsqd gpot invhsqd j part =
     (if gpot j > 1.000000001 * part_gpot part \<and> drsqd j * invhsqd < kern_kernrangesqd cfg
      then part\<lparr>part_potmin := False\<rparr> else part)"

text \<open>
  The end of the routine: the loop over the neighbours that clears \<open>potmin\<close>, then the
  thermal update.
\<close>

definition ComputeH_close ::
  "'a MfvRungeKutta \<Rightarrow> int \<Rightarrow> (nat \<Rightarrow> real) \<Rightarrow> (nat \<Rightarrow> real) \<Rightarrow> real \<Rightarrow>
   'a MeshlessFVParticle_scheme \<Rightarrow> 'a MeshlessFVParticle_scheme" where
  "ComputeH_close cfg Nneib drsqd gpot invhsqd part =
     (let p9 = (if create_sinks cfg = 1
                then fold (potmin_neib cfg drsqd gpot invhsqd) [0 ..< nat Nneib]
                       (part\<lparr>part_potmin := True\<rparr>)
                else part);
          p10 = ComputeThermalProperties cfg p9
      in UpdatePrimitiveVector cfg p10)"

text \<open>
  The statements under \<open>Normalise all SPH sums correctly\<close>. A final \<open>h = 0\<close> or a sum
  \<open>invomega = 0\<close> is divided by and not followed.
\<close>

definition ComputeH_normalise ::
  "'a MfvRungeKutta \<Rightarrow> real \<Rightarrow> 'a MeshlessFVParticle_scheme \<Rightarrow>
   error + 'a MeshlessFVParticle_scheme" where
  "ComputeH_normalise cfg h_lower_bound part =
     (let p1 = part\<lparr>part_h := max (h_fac cfg * c_powf cfg (part_volume part) (invndim cfg))
                               h_lower_bound\<rparr>
      in if part_h p1 = 0 then Inl NonFinite
         else
           (let p2 = p1\<lparr>part_invh := 1 / part_h p1\<rparr>;
                p3 = p2\<lparr>part_hfactor := c_pow cfg (part_invh p2) (real (mfv_ndim cfg + 1))\<rparr>;
                p4 = p3\<lparr>part_hrangesqd :=
                       kernfacsqd cfg * kern_kernrangesqd cfg * part_h p3 * part_h p3\<rparr>;
                p5 = p4\<lparr>part_div_v := 0\<rparr>;
                p6 = p5\<lparr>part_invomega :=
                       1 + invndim cfg * part_h p5 * part_invomega p5 / part_ndens p5\<rparr>
            in if part_invomega p6 = 0 then Inl NonFinite
               else
                 (let p7 = p6\<lparr>part_invomega := 1 / part_invomega p6\<rparr>
                  in Inr (p7\<lparr>part_zeta := - invndim cfg * part_h p7 * part_zeta p7 *
                             part_invomega p7 / part_ndens p7\<rparr>))))"

text \<open>
  The code after the loop: normalisation, \<open>potmin\<close>, thermal update and the return value.

  With \<open>ndens = 0\<close> from the last pass, \<open>volume\<close> is \<open>+inf\<close> (for \<open>invh > 0\<close>) and so is the
  final \<open>h\<close> (for positive \<open>h_fac\<close> and \<open>invndim\<close>): the routine goes through its last
  statements and returns \<open>-1\<close>. The fields \<open>h\<close>, \<open>invh\<close>, \<open>hfactor\<close>, \<open>hrangesqd\<close>, \<open>invomega\<close>
  and \<open>zeta\<close> of the particle are then not numbers of the model, which leaves them as they
  were; \<open>potmin\<close> is computed from finite values.
\<close>

definition ComputeH_finish ::
  "'a MfvRungeKutta \<Rightarrow> int \<Rightarrow> real \<Rightarrow> (nat \<Rightarrow> real) \<Rightarrow> (nat \<Rightarrow> real) \<Rightarrow>
   real \<Rightarrow> real \<Rightarrow> 'a MeshlessFVParticle_scheme \<Rightarrow>
   error + (int \<times> 'a MeshlessFVParticle_scheme)" where
  "ComputeH_finish cfg Nneib hmax drsqd gpot h_lower_bound invhsqd part =
     (if part_ndens part = 0 then
        (if 0 < h_fac cfg \<and> 0 < invndim cfg \<and> 0 < part_invh part
         then Inr (- 1, ComputeH_close cfg Nneib drsqd gpot invhsqd (part\<lparr>part_div_v := 0\<rparr>))
         else Inl NonFinite)
      else
        (case ComputeH_normalise cfg h_lower_bound part of
           Inl e \<Rightarrow> Inl e
         | Inr p8 \<Rightarrow>
             (let p11 = ComputeH_close cfg Nneib drsqd gpot invhsqd p8
              in if part_h p11 \<le> hmax then Inr (1, p11) else Inr (- 1, p11))))"

text \<open>
  The whole routine. The result is the return value together with the particle, which the
  source updates through a reference; the \<open>assert\<close>s are the \<open>AssertionFailed\<close> branch.
\<close>

definition ComputeH ::
  "'a MfvRungeKutta \<Rightarrow> int \<Rightarrow> real \<Rightarrow> (nat \<Rightarrow> real) \<Rightarrow> (nat \<Rightarrow> real) \<Rightarrow> (nat \<Rightarrow> real) \<Rightarrow>
   'a MeshlessFVParticle_scheme \<Rightarrow> error + (int \<times> 'a MeshlessFVParticle_scheme)" where
  "ComputeH cfg Nneib hmax m drsqd gpot part =
     (if part_sinkid part \<noteq> - 1 \<and> hmax < hmin_sink cfg then Inr (- 1, part)
      else if \<not> (Nneib > 0 \<and> hmax > 0 \<and> part_itype part \<noteq> dead \<and> part_m part > 0)
      then Inl AssertionFailed
      else
        (case ComputeH_loop cfg Nneib hmax m drsqd 0
                (if part_sinkid part \<noteq> - 1 then hmin_sink cfg else 0) hmax part of
           Inl e \<Rightarrow> Inl e
         | Inr (Return0 p) \<Rightarrow> Inr (0, p)
         | Inr (LoopDone p lo invhsqd) \<Rightarrow>
             ComputeH_finish cfg Nneib hmax drsqd gpot lo invhsqd p))"

text \<open>
  The iteration as the specification words it: a relative convergence test, and a bracket
  update that looks at the over-density test only.
\<close>

definition h_converged_spec :: "'a MfvRungeKutta \<Rightarrow> real \<Rightarrow> 'a MeshlessFVParticle_scheme \<Rightarrow> bool" where
  "h_converged_spec cfg h_lower_bound part =
     (part_rho part > 0 \<and> part_h part > h_lower_bound \<and>
      \<bar>part_h part - h_fac cfg * c_pow cfg (part_m part / part_rho part) (invndim cfg)\<bar>
        < h_converge cfg * part_h part)"

definition h_update_spec ::
  "'a MfvRungeKutta \<Rightarrow> int \<Rightarrow> real \<Rightarrow> real \<Rightarrow> 'a MeshlessFVParticle_scheme \<Rightarrow>
   error + (real \<times> real \<times> 'a MeshlessFVParticle_scheme)" where
  "h_update_spec cfg k h_lo h_hi part =
     (if k < 30 then
        Inr (h_lo, h_hi,
             part\<lparr>part_h := h_fac cfg * c_pow cfg (part_m part / part_rho part) (invndim cfg)\<rparr>)
      else if k = 30 then Inr (h_lo, h_hi, part\<lparr>part_h := (h_lo + h_hi) / 2\<rparr>)
      else if k < 150 then
        (if part_ndens part * c_pow cfg (part_h part) (real (mfv_ndim cfg)) >
              c_pow cfg (h_fac cfg) (real (mfv_ndim cfg))
         then Inr (h_lo, part_h part, part\<lparr>part_h := (h_lo + part_h part) / 2\<rparr>)
         else Inr (part_h part, h_hi, part\<lparr>part_h := (part_h part + h_hi) / 2\<rparr>))
      else Inl HIterationDiverged)"

text \<open>
  A one-dimensional solver with a top-hat kernel of range 2 (\<open>w0 = 1\<close> for \<open>s\<^sup>2 < 4\<close>),
  and \<open>pow\<close> the real power function.
\<close>

definition tophat :: "real \<Rightarrow> real" where
  "tophat ssqd = (if ssqd < 4 then 1 else 0)"

definition mfv1 :: "unit MfvRungeKutta" where
  "mfv1 = \<lparr>mfv_ndim = 1, h_fac = 19 / 20, h_converge = 1 / 100, hmin_sink = 0,
     create_sinks = 1, kernfacsqd = 1, invndim = 1, small_number = 1 / 10 ^ 20,
     kern_w0_s2 = tophat, kern_womega_s2 = (\<lambda>s. 0), kern_wzeta_s2 = (\<lambda>s. 0),
     kern_kernrangesqd = 4, c_pow = (\<lambda>x y. x powr y), c_powf = (\<lambda>x y. x powr y),
     ComputeThermalProperties = (\<lambda>p. p), UpdatePrimitiveVector = (\<lambda>p. p),
     nvar = 3, irho = 1, ipress = 2,
     limiter_ComputeLimitedSlopes = (\<lambda>p q d var. 0),
     riemann_ComputeFluxes = (\<lambda>Wr Wl u vf var k. Wl var - Wr var)\<rparr>"

definition gas_part :: MeshlessFVParticle where
  "gas_part = \<lparr>part_r = (\<lambda>k. 0), part_v = (\<lambda>k. 0), part_h = 1 / 10,
     part_active = True, part_iorig = 0, part_itype = real_particle,
     part_sinkid = - 1, part_ptype = 0, part_m = 1, part_ndens = 0, part_invomega = 0,
     part_zeta = 0, part_invh = 0, part_hfactor = 0, part_volume = 0, part_rho = 0,
     part_invrho = 0, part_hrangesqd = 0, part_div_v = 0, part_gpot = 1,
     part_potmin = False, part_B = (\<lambda>k kk. 0), part_Wprim = (\<lambda>var. 0),
     part_dQdt = (\<lambda>var. 0)\<rparr>"

text \<open>One neighbour at distance zero, of mass 1, with a potential just above the particle's.\<close>

definition near_drsqd :: "nat \<Rightarrow> real" where
  "near_drsqd = (\<lambda>j. 0)"

definition far_drsqd :: "nat \<Rightarrow> real" where
  "far_drsqd = (\<lambda>j. 100)"

definition unit_m :: "nat \<Rightarrow> real" where
  "unit_m = (\<lambda>j. 1)"


section \<open>MfvRungeKutta::ComputeGodunovFlux\<close>

text \<open>The pseudo-area vector \<open>Aij\<close> of the particle and one neighbour.\<close>

definition Godunov_Aij ::
  "'a MfvRungeKutta \<Rightarrow> 'a MeshlessFVParticle_scheme \<Rightarrow> 'a MeshlessFVParticle_scheme \<Rightarrow> vec" where
  "Godunov_Aij cfg part nb =
     (let draux = (\<lambda>k. part_r part k - part_r nb k);
          drsqd = DotProduct draux draux (mfv_ndim cfg);
          psitildai = (\<lambda>k. fold (\<lambda>kk acc. acc + part_B nb k kk * draux kk * part_hfactor nb *
                          kern_w0_s2 cfg (drsqd * part_invh nb * part_invh nb) / part_ndens nb)
                        [0 ..< mfv_ndim cfg] 0);
          psitildaj = (\<lambda>k. fold (\<lambda>kk acc. acc - part_B part k kk * draux kk * part_hfactor part *
                          kern_w0_s2 cfg (drsqd * part_invh part * part_invh part) / part_ndens part)
                        [0 ..< mfv_ndim cfg] 0)
      in (\<lambda>k. part_volume part * psitildaj k - part_volume nb * psitildai k))"

text \<open>The unit vector, the face velocity and the two reconstructed states \<open>Wleft\<close>, \<open>Wright\<close>.\<close>

definition Godunov_dr_unit ::
  "'a MfvRungeKutta \<Rightarrow> 'a MeshlessFVParticle_scheme \<Rightarrow> 'a MeshlessFVParticle_scheme \<Rightarrow> vec" where
  "Godunov_dr_unit cfg part nb =
     (let draux = (\<lambda>k. part_r part k - part_r nb k);
          drsqd = DotProduct draux draux (mfv_ndim cfg);
          invdrmagaux = 1 / sqrt (drsqd + small_number cfg)
      in (\<lambda>k. draux k * invdrmagaux))"

definition Godunov_rface ::
  "'a MeshlessFVParticle_scheme \<Rightarrow> 'a MeshlessFVParticle_scheme \<Rightarrow> vec" where
  "Godunov_rface part nb =
     (\<lambda>k. part_r part k + part_h part * (part_r nb k - part_r part k) / (part_h part + part_h nb))"

definition Godunov_vface ::
  "'a MfvRungeKutta \<Rightarrow> 'a MeshlessFVParticle_scheme \<Rightarrow> 'a MeshlessFVParticle_scheme \<Rightarrow> vec" where
  "Godunov_vface cfg part nb =
     (let draux = (\<lambda>k. part_r part k - part_r nb k);
          drsqd = DotProduct draux draux (mfv_ndim cfg);
          invdrmagaux = 1 / sqrt (drsqd + small_number cfg);
          draux2 = (\<lambda>k. part_r part k - Godunov_rface part nb k)
      in (\<lambda>k. part_v part k + (part_v nb k - part_v part k) *
                DotProduct draux2 (Godunov_dr_unit cfg part nb) (mfv_ndim cfg) * invdrmagaux))"

definition Godunov_Wleft ::
  "'a MfvRungeKutta \<Rightarrow> 'a MeshlessFVParticle_scheme \<Rightarrow> 'a MeshlessFVParticle_scheme \<Rightarrow>
   (nat \<Rightarrow> real)" where
  "Godunov_Wleft cfg part nb =
     (let draux = (\<lambda>k. Godunov_rface part nb k - part_r part k);
          dW = limiter_ComputeLimitedSlopes cfg part nb draux;
          Wleft = (\<lambda>var. part_Wprim part var + dW var)
      in (\<lambda>var. if var < mfv_ndim cfg then Wleft var - Godunov_vface cfg part nb var
                 else Wleft var))"

definition Godunov_Wright ::
  "'a MfvRungeKutta \<Rightarrow> 'a MeshlessFVParticle_scheme \<Rightarrow> 'a MeshlessFVParticle_scheme \<Rightarrow>
   (nat \<Rightarrow> real)" where
  "Godunov_Wright cfg part nb =
     (let draux = (\<lambda>k. Godunov_rface part nb k - part_r nb k);
          dW = limiter_ComputeLimitedSlopes cfg nb part draux;
          Wright = (\<lambda>var. part_Wprim nb var + dW var)
      in (\<lambda>var. if var < mfv_ndim cfg then Wright var - Godunov_vface cfg part nb var
                 else Wright var))"

definition Godunov_flux ::
  "'a MfvRungeKutta \<Rightarrow> 'a MeshlessFVParticle_scheme \<Rightarrow> 'a MeshlessFVParticle_scheme \<Rightarrow>
   (nat \<Rightarrow> vec)" where
  "Godunov_flux cfg part nb =
     riemann_ComputeFluxes cfg (Godunov_Wright cfg part nb) (Godunov_Wleft cfg part nb)
       (Godunov_dr_unit cfg part nb) (Godunov_vface cfg part nb)"

text \<open>
  The body of the loop over the neighbours for the neighbour \<open>nb = neibpart[j]\<close>: the four
  \<open>assert\<close>s, then the two accumulations for every \<open>var < nvar\<close>.
\<close>

definition Godunov_pair ::
  "'a MfvRungeKutta \<Rightarrow> 'a MeshlessFVParticle_scheme \<Rightarrow> 'a MeshlessFVParticle_scheme \<Rightarrow>
   error + ('a MeshlessFVParticle_scheme \<times> 'a MeshlessFVParticle_scheme)" where
  "Godunov_pair cfg part nb =
     (let Aij = Godunov_Aij cfg part nb;
          Wleft = Godunov_Wleft cfg part nb;
          Wright = Godunov_Wright cfg part nb
      in if \<not> (Wleft (irho cfg) > 0 \<and> Wleft (ipress cfg) > 0 \<and>
                Wright (irho cfg) > 0 \<and> Wright (ipress cfg) > 0)
         then Inl AssertionFailed
         else
           (let flux = Godunov_flux cfg part nb
            in Inr (part\<lparr>part_dQdt := (\<lambda>var. if var < nvar cfg
                        then part_dQdt part var - DotProduct (flux var) Aij (mfv_ndim cfg)
                        else part_dQdt part var)\<rparr>,
                    nb\<lparr>part_dQdt := (\<lambda>var. if var < nvar cfg
                        then part_dQdt nb var + DotProduct (flux var) Aij (mfv_ndim cfg)
                        else part_dQdt nb var)\<rparr>)))"

text \<open>The loop over \<open>jj\<close>, with \<open>j = neiblist[jj]\<close>, on the particle and the neighbour array.\<close>

fun Godunov_loop ::
  "'a MfvRungeKutta \<Rightarrow> (nat \<Rightarrow> int) \<Rightarrow> nat list \<Rightarrow> 'a MeshlessFVParticle_scheme \<Rightarrow>
   (int \<Rightarrow> 'a MeshlessFVParticle_scheme) \<Rightarrow>
   error + ('a MeshlessFVParticle_scheme \<times> (int \<Rightarrow> 'a MeshlessFVParticle_scheme))" where
  "Godunov_loop cfg neiblist [] part neibpart = Inr (part, neibpart)"
| "Godunov_loop cfg neiblist (jj # jjs) part neibpart =
     (case Godunov_pair cfg part (neibpart (neiblist jj)) of
        Inl e \<Rightarrow> Inl e
      | Inr (part', nb') \<Rightarrow>
          Godunov_loop cfg neiblist jjs part' (neibpart(neiblist jj := nb')))"

definition ComputeGodunovFlux ::
  "'a MfvRungeKutta \<Rightarrow> int \<Rightarrow> (nat \<Rightarrow> int) \<Rightarrow> 'a MeshlessFVParticle_scheme \<Rightarrow>
   (int \<Rightarrow> 'a MeshlessFVParticle_scheme) \<Rightarrow>
   error + ('a MeshlessFVParticle_scheme \<times> (int \<Rightarrow> 'a MeshlessFVParticle_scheme))" where
  "ComputeGodunovFlux cfg Nneib neiblist part neibpart =
     Godunov_loop cfg neiblist [0 ..< nat Nneib]
       (part\<lparr>part_dQdt := (\<lambda>var. if var < nvar cfg then 0 else part_dQdt part var)\<rparr>) neibpart"

text \<open>Two gas particles a unit distance apart, with positive density and pressure.\<close>

definition left_gas :: MeshlessFVParticle where
  "left_gas = gas_part\<lparr>part_r := (\<lambda>k. 0), part_h := 1, part_invh := 1, part_hfactor := 1,
     part_ndens := 1, part_volume := 1, part_B := (\<lambda>k kk. 1),
     part_Wprim := (\<lambda>var. 2), part_dQdt := (\<lambda>var. 7)\<rparr>"

definition right_gas :: MeshlessFVParticle where
  "right_gas = gas_part\<lparr>part_r := (\<lambda>k. 1), part_h := 1, part_invh := 1, part_hfactor := 1,
     part_ndens := 1, part_volume := 1, part_B := (\<lambda>k kk. 1),
     part_Wprim := (\<lambda>var. 1), part_dQdt := (\<lambda>var. 5)\<rparr>"

section \<open>GradhSphTree::UpdateAllSphProperties, for one active cell\<close>

text \<open>
  An array made by \<open>new T[n]\<close>: the number of elements asked for and the contents. The
  contents of a fresh array are indeterminate in C++; the model fills them with zero, and
  the routine writes every element before it reads it.
\<close>

type_synonym 'a carray = "int \<times> (nat \<Rightarrow> 'a)"

definition new_array :: "int \<Rightarrow> ('a::zero) carray" where
  "new_array n = (n, (\<lambda>i. 0))"

definition aget :: "'a carray \<Rightarrow> nat \<Rightarrow> 'a" where
  "aget a i = snd a i"

definition aset :: "'a carray \<Rightarrow> nat \<Rightarrow> 'a \<Rightarrow> 'a carray" where
  "aset a i x = (fst a, (snd a)(i := x))"

text \<open>The scratch arrays of one thread and their common size \<open>Nneibmax\<close>.\<close>

record scratch =
  Nneibmax :: int
  sc_neiblist :: "int carray"
  sc_ptype :: "nat carray"
  sc_gpot :: "real carray"
  sc_gpot2 :: "real carray"
  sc_drsqd :: "real carray"
  sc_m :: "real carray"
  sc_m2 :: "real carray"
  sc_r :: "real carray"

text \<open>
  What the routine uses of its surroundings, for the cell at hand: the template parameter,
  two constants, the type mask \<open>sph->types[a].hmask[b]\<close>, the tree queries (whose code is
  elsewhere) and the virtual \<open>sph->ComputeH\<close>. A gather query takes the particle array,
  \<open>hmax\<close>, \<open>Nneibmax\<close>, the running \<open>Nneib\<close> and the list, and returns the new \<open>Nneib\<close>
  (\<open>-1\<close> on overflow) and the list.
\<close>

record 'a TreeSearch =
  ts_ndim :: nat
  ts_kernrangesqd :: real
  ts_small_number :: real
  hmask :: "nat \<Rightarrow> nat \<Rightarrow> bool"
  cell_hmax :: real
  ComputeActiveParticleList :: "(int \<Rightarrow> 'a MeshlessFVParticle_scheme) \<Rightarrow> int list"
  tree_ComputeGatherNeighbourList ::
    "(int \<Rightarrow> 'a MeshlessFVParticle_scheme) \<Rightarrow> real \<Rightarrow> int \<Rightarrow> int \<Rightarrow> (nat \<Rightarrow> int) \<Rightarrow> int \<times> (nat \<Rightarrow> int)"
  ghosttree_ComputeGatherNeighbourList ::
    "(int \<Rightarrow> 'a MeshlessFVParticle_scheme) \<Rightarrow> real \<Rightarrow> int \<Rightarrow> int \<Rightarrow> (nat \<Rightarrow> int) \<Rightarrow> int \<times> (nat \<Rightarrow> int)"
  sph_ComputeH ::
    "int \<Rightarrow> int \<Rightarrow> real \<Rightarrow> (nat \<Rightarrow> real) \<Rightarrow> (nat \<Rightarrow> real) \<Rightarrow> (nat \<Rightarrow> real) \<Rightarrow>
     'a MeshlessFVParticle_scheme \<Rightarrow> error + (int \<times> 'a MeshlessFVParticle_scheme)"

text \<open>\<open>Nneib = 0\<close>, then the query on the tree and on the ghost tree.\<close>

definition gather_query ::
  "'a TreeSearch \<Rightarrow> (int \<Rightarrow> 'a MeshlessFVParticle_scheme) \<Rightarrow> real \<Rightarrow> scratch \<Rightarrow> int \<times> scratch" where
  "gather_query env pdata hmax sc =
     (let q1 = tree_ComputeGatherNeighbourList env pdata hmax (Nneibmax sc) 0
                 (snd (sc_neiblist sc));
          q2 = ghosttree_ComputeGatherNeighbourList env pdata hmax (Nneibmax sc) (fst q1)
                 (snd q1)
      in (fst q2, sc\<lparr>sc_neiblist := (fst (sc_neiblist sc), snd q2)\<rparr>))"

text \<open>The body of \<open>while (Nneib == -1)\<close>: free, double, allocate, query again.\<close>

definition realloc_scratch :: "nat \<Rightarrow> scratch \<Rightarrow> scratch" where
  "realloc_scratch ndim sc =
     (let n = 2 * Nneibmax sc
      in \<lparr>Nneibmax = n, sc_neiblist = new_array n, sc_ptype = new_array n,
          sc_gpot = new_array n, sc_gpot2 = new_array n, sc_drsqd = new_array n,
          sc_m = new_array n, sc_m2 = new_array n, sc_r = new_array (n * int ndim)\<rparr>)"

text \<open>
  The \<open>while\<close> loop has no bound in the source; the first argument bounds the number of
  passes of the model, and \<open>None\<close> says that the loop is still running after that many.
\<close>

fun gather_retry ::
  "nat \<Rightarrow> 'a TreeSearch \<Rightarrow> (int \<Rightarrow> 'a MeshlessFVParticle_scheme) \<Rightarrow> real \<Rightarrow> int \<Rightarrow> scratch \<Rightarrow>
   (int \<times> scratch) option" where
  "gather_retry fuel env pdata hmax Nneib sc =
     (if Nneib = - 1 then
        (case fuel of
           0 \<Rightarrow> None
         | Suc fuel' \<Rightarrow>
             (let q = gather_query env pdata hmax (realloc_scratch (ts_ndim env) sc)
              in gather_retry fuel' env pdata hmax (fst q) (snd q)))
      else Some (Nneib, sc))"

declare gather_retry.simps [simp del]

definition gather_with_retry ::
  "nat \<Rightarrow> 'a TreeSearch \<Rightarrow> (int \<Rightarrow> 'a MeshlessFVParticle_scheme) \<Rightarrow> real \<Rightarrow> scratch \<Rightarrow>
   (int \<times> scratch) option" where
  "gather_with_retry fuel env pdata hmax sc =
     (let q = gather_query env pdata hmax sc
      in gather_retry fuel env pdata hmax (fst q) (snd q))"

text \<open>The local copies of the neighbours' potential, mass, type and position.\<close>

definition copy_neib ::
  "'a TreeSearch \<Rightarrow> (int \<Rightarrow> 'a MeshlessFVParticle_scheme) \<Rightarrow> nat \<Rightarrow> scratch \<Rightarrow> scratch" where
  "copy_neib env pdata jj sc =
     (let j = aget (sc_neiblist sc) jj;
          sc1 = sc\<lparr>sc_gpot := aset (sc_gpot sc) jj (part_gpot (pdata j))\<rparr>;
          sc2 = sc1\<lparr>sc_m := aset (sc_m sc1) jj (part_m (pdata j))\<rparr>;
          sc3 = sc2\<lparr>sc_ptype := aset (sc_ptype sc2) jj (part_ptype (pdata j))\<rparr>
      in fold (\<lambda>k s. s\<lparr>sc_r := aset (sc_r s) (ts_ndim env * jj + k) (part_r (pdata j) k)\<rparr>)
           [0 ..< ts_ndim env] sc3)"

text \<open>
  The loop that selects the gather neighbours of one active particle; it writes the selected
  potentials back into \<open>gpot\<close> itself, as the source does.
\<close>

definition gather_neib ::
  "'a TreeSearch \<Rightarrow> real \<Rightarrow> 'a MeshlessFVParticle_scheme \<Rightarrow> nat \<Rightarrow> nat \<times> scratch \<Rightarrow>
   nat \<times> scratch" where
  "gather_neib env hrangesqd ap jj st =
     (let Ngather = fst st; sc = snd st
      in if \<not> hmask env (part_ptype ap) (aget (sc_ptype sc) jj) then st
         else
           (let draux = (\<lambda>k. aget (sc_r sc) (ts_ndim env * jj + k) - part_r ap k);
                drsqdaux = DotProduct draux draux (ts_ndim env) + ts_small_number env
            in if drsqdaux \<le> hrangesqd
               then
                 (let sc1 = sc\<lparr>sc_gpot := aset (sc_gpot sc) Ngather (aget (sc_gpot sc) jj)\<rparr>;
                      sc2 = sc1\<lparr>sc_drsqd := aset (sc_drsqd sc1) Ngather drsqdaux\<rparr>;
                      sc3 = sc2\<lparr>sc_m2 := aset (sc_m2 sc2) Ngather (aget (sc_m sc2) jj)\<rparr>
                  in (Ngather + 1, sc3))
               else st))"

text \<open>
  The loop over the active particles of the cell, from the \<open>j\<close>-th on. The result is
  \<open>celldone\<close>, the local copies of the active particles, the scratch arrays and, as a
  record of the run, the values that \<open>ComputeH\<close> returned in this pass.
\<close>

fun active_loop ::
  "'a TreeSearch \<Rightarrow> real \<Rightarrow> int \<Rightarrow> int list \<Rightarrow> nat list \<Rightarrow>
   'a MeshlessFVParticle_scheme list \<Rightarrow> scratch \<Rightarrow> int list \<Rightarrow>
   error + (int \<times> 'a MeshlessFVParticle_scheme list \<times> scratch \<times> int list)" where
  "active_loop env hmax Nneib activelist [] activepart sc okflags =
     Inr (1, activepart, sc, okflags)"
| "active_loop env hmax Nneib activelist (j # js) activepart sc okflags =
     (let i = activelist ! j;
          hrangesqd = ts_kernrangesqd env * hmax * hmax;
          g = fold (gather_neib env hrangesqd (activepart ! j)) [0 ..< nat Nneib] (0, sc);
          Ngather = fst g;
          sc1 = snd g
      in case sph_ComputeH env i (int Ngather) hmax (snd (sc_m2 sc1)) (snd (sc_drsqd sc1))
                (snd (sc_gpot sc1)) (activepart ! j) of
           Inl e \<Rightarrow> Inl e
         | Inr (okflag, ap) \<Rightarrow>
             if okflag = 0
             then Inr (0, activepart[j := ap], sc1, okflags @ [okflag])
             else active_loop env hmax Nneib activelist js (activepart[j := ap]) sc1
                    (okflags @ [okflag]))"

text \<open>One pass of the \<open>do \<dots> while (celldone == 0)\<close> body, after \<open>hmax\<close> has been scaled.\<close>

definition cell_pass ::
  "nat \<Rightarrow> 'a TreeSearch \<Rightarrow> (int \<Rightarrow> 'a MeshlessFVParticle_scheme) \<Rightarrow> real \<Rightarrow> scratch \<Rightarrow>
   (error + (int \<times> 'a MeshlessFVParticle_scheme list \<times> scratch \<times> int list)) option" where
  "cell_pass fuel env pdata hmax sc =
     (let activelist = ComputeActiveParticleList env pdata;
          activepart = map pdata activelist
      in case gather_with_retry fuel env pdata hmax sc of
           None \<Rightarrow> None
         | Some (Nneib, sc1) \<Rightarrow>
             (let sc2 = fold (copy_neib env pdata) [0 ..< nat Nneib] sc1
              in Some (active_loop env hmax Nneib activelist [0 ..< length activelist]
                         activepart sc2 [])))"

text \<open>
  The \<open>do \<dots> while\<close> loop on \<open>hmax\<close>. It has no bound in the source: the first argument bounds
  the number of passes, and \<open>None\<close> says that the loop is still running. The last argument
  and the first component of the result record the run: the \<open>hmax\<close> of every pass so far
  with the values \<open>ComputeH\<close> returned in it.
\<close>

fun hmax_loop ::
  "nat \<Rightarrow> 'a TreeSearch \<Rightarrow> (int \<Rightarrow> 'a MeshlessFVParticle_scheme) \<Rightarrow> real \<Rightarrow> scratch \<Rightarrow>
   (real \<times> int list) list \<Rightarrow>
   (error + ((real \<times> int list) list \<times> 'a MeshlessFVParticle_scheme list \<times> scratch)) option" where
  "hmax_loop fuel env pdata hmax sc trace =
     (case fuel of
        0 \<Rightarrow> None
      | Suc fuel' \<Rightarrow>
          (case cell_pass fuel env pdata (1.05 * hmax) sc of
             None \<Rightarrow> None
           | Some (Inl e) \<Rightarrow> Some (Inl e)
           | Some (Inr (celldone, activepart, sc1, okflags)) \<Rightarrow>
               if celldone = 0
               then hmax_loop fuel' env pdata (1.05 * hmax) sc1 (trace @ [(1.05 * hmax, okflags)])
               else Some (Inr (trace @ [(1.05 * hmax, okflags)], activepart, sc1))))"

declare hmax_loop.simps [simp del]

text \<open>
  The work on one active cell: the loop, started from \<open>cell.hmax\<close>, then the copy of the
  active particles back to the main array.
\<close>

definition UpdateCell ::
  "nat \<Rightarrow> 'a TreeSearch \<Rightarrow> (int \<Rightarrow> 'a MeshlessFVParticle_scheme) \<Rightarrow> scratch \<Rightarrow>
   (error + ((real \<times> int list) list \<times> (int \<Rightarrow> 'a MeshlessFVParticle_scheme) \<times> scratch)) option" where
  "UpdateCell fuel env pdata sc =
     (case hmax_loop fuel env pdata (cell_hmax env) sc [] of
        None \<Rightarrow> None
      | Some (Inl e) \<Rightarrow> Some (Inl e)
      | Some (Inr (trace, activepart, sc1)) \<Rightarrow>
          Some (Inr (trace,
            fold (\<lambda>j sd. sd(ComputeActiveParticleList env pdata ! j := activepart ! j))
              [0 ..< length (ComputeActiveParticleList env pdata)] pdata,
            sc1)))"




text \<open>
  A cell with one active particle (index 0) that is its own only neighbour; the tree query
  needs room for two entries. \<open>sph->ComputeH\<close> is the routine of the previous section.
\<close>

definition one_cell :: "unit TreeSearch" where
  "one_cell = \<lparr>ts_ndim = 1, ts_kernrangesqd = 4, ts_small_number = 1 / 10 ^ 20,
     hmask = (\<lambda>a b. True), cell_hmax = 1 / 10,
     ComputeActiveParticleList = (\<lambda>pdata. [0]),
     tree_ComputeGatherNeighbourList =
       (\<lambda>pdata hmax nmax n l. if nmax < 2 then (- 1, l) else (n + 1, l(nat n := 0))),
     ghosttree_ComputeGatherNeighbourList = (\<lambda>pdata hmax nmax n l. (n, l)),
     sph_ComputeH = (\<lambda>i. ComputeH mfv1)\<rparr>"


definition scratch1 :: scratch where
  "scratch1 = \<lparr>Nneibmax = 1, sc_neiblist = new_array 1, sc_ptype = new_array 1,
     sc_gpot = new_array 1, sc_gpot2 = new_array 1, sc_drsqd = new_array 1,
     sc_m = new_array 1, sc_m2 = new_array 1, sc_r = new_array 1\<rparr>"




text \<open>
  The same cell when the particle lies inside a sink whose \<open>hmin_sink\<close> is above the
  \<open>hmax\<close> of the pass: \<open>ComputeH\<close> returns \<open>-1\<close> at once.
\<close>

definition sink_cell :: "unit TreeSearch" where
  "sink_cell = one_cell\<lparr>sph_ComputeH := (\<lambda>i. ComputeH (mfv1\<lparr>hmin_sink := 5\<rparr>))\<rparr>"

definition sink_pdata :: "int \<Rightarrow> MeshlessFVParticle" where
  "sink_pdata = (\<lambda>i. gas_part\<lparr>part_sinkid := 0\<rparr>)"

section \<open>Boundary sweep: results\<close>

lemma CheckBoundaries_loop_at:
  "CheckBoundaries_loop ndim simbox i n sd k =
     (if i \<le> k \<and> k < n then CheckBoundaries_part ndim simbox (sd k) else sd k)"
proof (induction ndim simbox i n sd rule: CheckBoundaries_loop.induct)
  case (1 ndim simbox i n sd)
  show ?case
  proof (cases "i < n")
    case True
    have "CheckBoundaries_loop ndim simbox i n sd k =
        CheckBoundaries_loop ndim simbox (i + 1) n
          (sd(i := CheckBoundaries_part ndim simbox (sd i))) k"
      using True by (subst CheckBoundaries_loop.simps) simp
    also have "\<dots> = (if i \<le> k \<and> k < n then CheckBoundaries_part ndim simbox (sd k) else sd k)"
      unfolding "1.IH" [OF True] using True by auto
    finally show ?thesis .
  next
    case False
    then show ?thesis by (subst CheckBoundaries_loop.simps) auto
  qed
qed

lemma wrap_lhs_r:
  "part_r (wrap_lhs ok k b simbox p) j =
     (if ok \<and> part_r p k < boxmin simbox k \<and> b = ''periodic'' \<and> j = k
      then part_r p k + boxsize simbox k else part_r p j)"
  by (simp add: wrap_lhs_def)

lemma wrap_rhs_r:
  "part_r (wrap_rhs ok k b simbox p) j =
     (if ok \<and> part_r p k > boxmax simbox k \<and> b = ''periodic'' \<and> j = k
      then part_r p k - boxsize simbox k else part_r p j)"
  by (simp add: wrap_rhs_def)

lemma wrap_lhs_v: "part_v (wrap_lhs ok k b simbox p) = part_v p"
  by (simp add: wrap_lhs_def)

lemma wrap_rhs_v: "part_v (wrap_rhs ok k b simbox p) = part_v p"
  by (simp add: wrap_rhs_def)

lemma CheckBoundaries_part_v: "part_v (CheckBoundaries_part ndim simbox p) = part_v p"
  by (simp add: CheckBoundaries_part_def Let_def wrap_lhs_v wrap_rhs_v)

text \<open>The position of one particle after the sweep, coordinate by coordinate.\<close>

lemma CheckBoundaries_part_r:
  assumes "k < ndim" "ndim \<le> 3"
  shows "part_r (CheckBoundaries_part ndim simbox p) k =
     (let r1 = (if part_r p k < boxmin simbox k \<and> boundary_lhs simbox k = ''periodic''
                then part_r p k + boxsize simbox k else part_r p k)
      in if r1 > boxmax simbox k \<and> boundary_rhs simbox k = ''periodic''
         then r1 - boxsize simbox k else r1)"
proof -
  consider "k = 0" | "k = 1" "ndim \<ge> 2" | "k = 2" "ndim = 3"
    using assms by linarith
  then show ?thesis
  proof cases
    case 1
    then show ?thesis
      by (simp add: CheckBoundaries_part_def Let_def wrap_lhs_r wrap_rhs_r
          boundary_lhs_def boundary_rhs_def)
  next
    case 2
    then show ?thesis
      by (simp add: CheckBoundaries_part_def Let_def wrap_lhs_r wrap_rhs_r
          boundary_lhs_def boundary_rhs_def)
  next
    case 3
    then show ?thesis
      by (simp add: CheckBoundaries_part_def Let_def wrap_lhs_r wrap_rhs_r
          boundary_lhs_def boundary_rhs_def)
  qed
qed

text \<open>
  Claim C1, as stated, fails: a particle that has crossed a mirror face is neither moved
  back into the box nor has its velocity reversed, because the sweep only handles
  periodic faces.
\<close>

theorem CheckBoundaries_mirror_counterexample:
  "closed_dim mirror_box 0 \<and>
   \<not> (boxmin mirror_box 0 \<le> part_r (sphdata (CheckBoundaries 1 mirror_box one_part_sph) 0) 0 \<and>
      part_r (sphdata (CheckBoundaries 1 mirror_box one_part_sph) 0) 0 \<le> boxmax mirror_box 0) \<and>
   part_r (sphdata (CheckBoundaries 1 mirror_box one_part_sph) 0) 0 = - 1 / 2 \<and>
   part_v (sphdata (CheckBoundaries 1 mirror_box one_part_sph) 0) 0 = - 1"
  by (simp add: CheckBoundaries_def CheckBoundaries_loop_at CheckBoundaries_part_def Let_def
      wrap_lhs_def wrap_rhs_def mirror_box_def one_part_sph_def escaped_part_def
      closed_dim_def closed_face_def boundary_lhs_def boundary_rhs_def)

text \<open>
  Claim C1, amended: in a dimension whose two faces are periodic and whose \<open>boxsize\<close> is
  \<open>boxmax - boxmin\<close>, a particle of the main array that is at most one box length outside the
  box is wrapped by one box length and lies in the box after the sweep; in a dimension with
  no periodic face (open or mirror) the position is left as it is; the sweep never changes a
  velocity.
\<close>

theorem CheckBoundaries_periodic_wrap:
  "0 \<le> i \<and> i < Nsph sph \<and> k < ndim \<and> ndim \<le> 3 \<longrightarrow>
   (boundary_lhs simbox k = ''periodic'' \<and> boundary_rhs simbox k = ''periodic'' \<and>
    boxsize simbox k = boxmax simbox k - boxmin simbox k \<and>
    boxmin simbox k - boxsize simbox k \<le> part_r (sphdata sph i) k \<and>
    part_r (sphdata sph i) k \<le> boxmax simbox k + boxsize simbox k \<longrightarrow>
      boxmin simbox k \<le> part_r (sphdata (CheckBoundaries ndim simbox sph) i) k \<and>
      part_r (sphdata (CheckBoundaries ndim simbox sph) i) k \<le> boxmax simbox k \<and>
      part_r (sphdata (CheckBoundaries ndim simbox sph) i) k =
        (if part_r (sphdata sph i) k < boxmin simbox k
         then part_r (sphdata sph i) k + boxsize simbox k
         else if part_r (sphdata sph i) k > boxmax simbox k
         then part_r (sphdata sph i) k - boxsize simbox k
         else part_r (sphdata sph i) k)) \<and>
   (boundary_lhs simbox k \<noteq> ''periodic'' \<and> boundary_rhs simbox k \<noteq> ''periodic'' \<longrightarrow>
      part_r (sphdata (CheckBoundaries ndim simbox sph) i) k = part_r (sphdata sph i) k) \<and>
   part_v (sphdata (CheckBoundaries ndim simbox sph) i) = part_v (sphdata sph i)"
proof (intro impI)
  assume a: "0 \<le> i \<and> i < Nsph sph \<and> k < ndim \<and> ndim \<le> 3"
  then have at: "sphdata (CheckBoundaries ndim simbox sph) i =
      CheckBoundaries_part ndim simbox (sphdata sph i)"
    by (simp add: CheckBoundaries_def CheckBoundaries_loop_at)
  have r: "part_r (CheckBoundaries_part ndim simbox (sphdata sph i)) k =
     (let r1 = (if part_r (sphdata sph i) k < boxmin simbox k \<and> boundary_lhs simbox k = ''periodic''
                then part_r (sphdata sph i) k + boxsize simbox k else part_r (sphdata sph i) k)
      in if r1 > boxmax simbox k \<and> boundary_rhs simbox k = ''periodic''
         then r1 - boxsize simbox k else r1)"
    using a by (intro CheckBoundaries_part_r) auto
  show "(boundary_lhs simbox k = ''periodic'' \<and> boundary_rhs simbox k = ''periodic'' \<and>
    boxsize simbox k = boxmax simbox k - boxmin simbox k \<and>
    boxmin simbox k - boxsize simbox k \<le> part_r (sphdata sph i) k \<and>
    part_r (sphdata sph i) k \<le> boxmax simbox k + boxsize simbox k \<longrightarrow>
      boxmin simbox k \<le> part_r (sphdata (CheckBoundaries ndim simbox sph) i) k \<and>
      part_r (sphdata (CheckBoundaries ndim simbox sph) i) k \<le> boxmax simbox k \<and>
      part_r (sphdata (CheckBoundaries ndim simbox sph) i) k =
        (if part_r (sphdata sph i) k < boxmin simbox k
         then part_r (sphdata sph i) k + boxsize simbox k
         else if part_r (sphdata sph i) k > boxmax simbox k
         then part_r (sphdata sph i) k - boxsize simbox k
         else part_r (sphdata sph i) k)) \<and>
   (boundary_lhs simbox k \<noteq> ''periodic'' \<and> boundary_rhs simbox k \<noteq> ''periodic'' \<longrightarrow>
      part_r (sphdata (CheckBoundaries ndim simbox sph) i) k = part_r (sphdata sph i) k) \<and>
   part_v (sphdata (CheckBoundaries ndim simbox sph) i) = part_v (sphdata sph i)"
    unfolding at r by (auto simp: Let_def CheckBoundaries_part_v)
qed

theorem CheckBoundaries_periodic_wrap_witness:
  "part_r (sphdata (CheckBoundaries 1 periodic_box one_part_sph) 0) 0 = 1 / 2 \<and>
   boxmin periodic_box 0 \<le> part_r (sphdata (CheckBoundaries 1 periodic_box one_part_sph) 0) 0 \<and>
   part_r (sphdata (CheckBoundaries 1 periodic_box one_part_sph) 0) 0 \<le> boxmax periodic_box 0 \<and>
   part_r (sphdata (CheckBoundaries 1 mirror_box one_part_sph) 0) 0 =
     part_r (sphdata one_part_sph 0) 0"
  using CheckBoundaries_periodic_wrap [of 0 one_part_sph 0 1 periodic_box]
    CheckBoundaries_periodic_wrap [of 0 one_part_sph 0 1 mirror_box]
  by (simp add: periodic_box_def mirror_box_def one_part_sph_def escaped_part_def
      boundary_lhs_def boundary_rhs_def)

section \<open>Ghost creation: results\<close>

text \<open>
  Claim C8 against the code: with \<open>Nghost = Nghostmax\<close> the entry check \<open>Nghost > Nghostmax\<close>
  lets the call through, and the ghost is written at index \<open>Nsph + Nghost = Nsphmax\<close>. In
  \<open>SearchGhostParticles\<close> this state is reached by the second ghost of the particle; the
  overflow is only reported by the final test, after the write.
\<close>

theorem CreateGhostParticle_writes_at_Nsphmax:
  "(case CreateGhostParticle (tight_sph\<lparr>Nghost := 1\<rparr>) 0 0 (- 1 / 2) 3 (1 / 2) of
      Inl e \<Rightarrow> False
    | Inr s \<Rightarrow> Nghost s = 2 \<and> Nghost s > Nghostmax s \<and> Nsphmax s = 2 \<and>
        part_r (sphdata s (Nsphmax s)) 0 = - 1 / 2 \<and> \<not> part_active (sphdata s (Nsphmax s))) \<and>
   (case ghost_loop 2 periodic_box 0 ''periodic'' ''periodic'' 0 1 tight_sph of
      Inl e \<Rightarrow> False
    | Inr s \<Rightarrow> Nghost s = 2 \<and> Nsphmax s = 2 \<and>
        part_r (sphdata s 1) 0 = 3 / 2 \<and> part_r (sphdata s 2) 0 = - 1 / 2) \<and>
   SearchGhostParticles 1 2 periodic_box tight_sph = Inl GhostOverflow"
  by (simp add: CreateGhostParticle_def SearchGhostParticles_def ghost_dim_def ghost_loop.simps
      ghost_body_def ghost_lhs_def ghost_rhs_def ghost_range_def Let_def
      tight_sph_def mid_part_def periodic_box_def)

section \<open>Ghost bookkeeping: results\<close>

lemma CreateGhostParticle_ok:
  assumes "ghosts_ok (Nsph s) (Nghost s) (sphdata s)"
    and "0 \<le> i" and "i < Nsph s + Nghost s" and "0 \<le> Nghost s"
    and "CreateGhostParticle s i k rk vk bd = Inr s'"
  shows "ghosts_ok (Nsph s') (Nghost s') (sphdata s') \<and> Nsph s' = Nsph s \<and>
         Nghost s' = Nghost s + 1 \<and>
         part_iorig (sphdata s' (Nsph s + Nghost s)) =
           (if i < Nsph s then i else part_iorig (sphdata s i))"
proof -
  have ne: "i \<noteq> Nsph s + Nghost s" using assms(3) by simp
  have s': "s' = s\<lparr>sphdata := (sphdata s)(Nsph s + Nghost s :=
        (sphdata s i)\<lparr>part_r := (part_r (sphdata s i))(k := rk),
          part_v := (part_v (sphdata s i))(k := vk), part_active := False,
          part_iorig := (if i < Nsph s then i else part_iorig (sphdata s i))\<rparr>),
       Nghost := Nghost s + 1\<rparr>"
    using assms(5) ne
    by (auto simp: CreateGhostParticle_def Let_def split: if_splits)
  have old: "\<And>j. Nsph s \<le> j \<Longrightarrow> j < Nsph s + Nghost s \<Longrightarrow>
      0 \<le> part_iorig (sphdata s j) \<and> part_iorig (sphdata s j) < Nsph s \<and>
      \<not> part_active (sphdata s j)"
    using assms(1) by (simp add: ghosts_ok_def)
  have new: "0 \<le> (if i < Nsph s then i else part_iorig (sphdata s i)) \<and>
      (if i < Nsph s then i else part_iorig (sphdata s i)) < Nsph s"
    using assms(2,3) old [of i] by auto
  show ?thesis
    unfolding s' using old new by (auto simp: ghosts_ok_def)
qed

text \<open>The invariant of the ghost search: the ghosts made so far are well-formed.\<close>

lemma ghost_lhs_ok:
  assumes "ghosts_ok (Nsph s) (Nghost s) (sphdata s)"
    and "0 \<le> i" and "i < Nsph s + Nghost s" and "0 \<le> Nghost s"
    and "ghost_lhs kr simbox k lhs i s = Inr s'"
  shows "ghosts_ok (Nsph s') (Nghost s') (sphdata s') \<and> Nsph s' = Nsph s \<and>
         Nghost s \<le> Nghost s'"
proof (cases "lhs = ''periodic''")
  case True
  then have "lhs \<noteq> ''mirror''" by auto
  with True assms(5) have "s' = s \<or> (\<exists>rk vk bd. CreateGhostParticle s i k rk vk bd = Inr s')"
    by (auto simp: ghost_lhs_def split: if_splits sum.splits)
  then show ?thesis
    using CreateGhostParticle_ok [OF assms(1-4)] assms(1) by fastforce
next
  case False
  with assms(5) have "s' = s \<or> (\<exists>rk vk bd. CreateGhostParticle s i k rk vk bd = Inr s')"
    by (auto simp: ghost_lhs_def split: if_splits)
  then show ?thesis
    using CreateGhostParticle_ok [OF assms(1-4)] assms(1) by fastforce
qed

lemma ghost_rhs_ok:
  assumes "ghosts_ok (Nsph s) (Nghost s) (sphdata s)"
    and "0 \<le> i" and "i < Nsph s + Nghost s" and "0 \<le> Nghost s"
    and "ghost_rhs kr simbox k rhs i s = Inr s'"
  shows "ghosts_ok (Nsph s') (Nghost s') (sphdata s') \<and> Nsph s' = Nsph s \<and>
         Nghost s \<le> Nghost s'"
proof (cases "rhs = ''periodic''")
  case True
  then have "rhs \<noteq> ''mirror''" by auto
  with True assms(5) have "s' = s \<or> (\<exists>rk vk bd. CreateGhostParticle s i k rk vk bd = Inr s')"
    by (auto simp: ghost_rhs_def split: if_splits sum.splits)
  then show ?thesis
    using CreateGhostParticle_ok [OF assms(1-4)] assms(1) by fastforce
next
  case False
  with assms(5) have "s' = s \<or> (\<exists>rk vk bd. CreateGhostParticle s i k rk vk bd = Inr s')"
    by (auto simp: ghost_rhs_def split: if_splits)
  then show ?thesis
    using CreateGhostParticle_ok [OF assms(1-4)] assms(1) by fastforce
qed

lemma ghost_body_ok:
  assumes "ghosts_ok (Nsph s) (Nghost s) (sphdata s)"
    and "0 \<le> i" and "i < Nsph s + Nghost s" and "0 \<le> Nghost s"
    and "ghost_body kr simbox k lhs rhs i s = Inr s'"
  shows "ghosts_ok (Nsph s') (Nghost s') (sphdata s') \<and> Nsph s' = Nsph s \<and>
         Nghost s \<le> Nghost s'"
proof -
  from assms(5) obtain s1 where l: "ghost_lhs kr simbox k lhs i s = Inr s1"
    and r: "ghost_rhs kr simbox k rhs i s1 = Inr s'"
    by (auto simp: ghost_body_def split: sum.splits)
  have 1: "ghosts_ok (Nsph s1) (Nghost s1) (sphdata s1) \<and> Nsph s1 = Nsph s \<and>
         Nghost s \<le> Nghost s1"
    using ghost_lhs_ok [OF assms(1-4) l] .
  then have "ghosts_ok (Nsph s') (Nghost s') (sphdata s') \<and> Nsph s' = Nsph s1 \<and>
         Nghost s1 \<le> Nghost s'"
    using assms(2-4) by (intro ghost_rhs_ok [OF _ _ _ _ r]) auto
  with 1 show ?thesis by auto
qed

lemma ghost_loop_ok:
  "ghosts_ok (Nsph s) (Nghost s) (sphdata s) \<Longrightarrow> 0 \<le> i \<Longrightarrow> n \<le> Nsph s + Nghost s \<Longrightarrow>
   0 \<le> Nghost s \<Longrightarrow> ghost_loop kr simbox k lhs rhs i n s = Inr s' \<Longrightarrow>
   ghosts_ok (Nsph s') (Nghost s') (sphdata s') \<and> Nsph s' = Nsph s \<and> Nghost s \<le> Nghost s'"
proof (induction kr simbox k lhs rhs i n s rule: ghost_loop.induct)
  case (1 kr simbox k lhs rhs i n s)
  show ?case
  proof (cases "i < n")
    case False
    with "1.prems" show ?thesis by (simp add: ghost_loop.simps)
  next
    case True
    with "1.prems"(5) obtain s1 where b: "ghost_body kr simbox k lhs rhs i s = Inr s1"
      and l: "ghost_loop kr simbox k lhs rhs (i + 1) n s1 = Inr s'"
      by (subst (asm) ghost_loop.simps) (auto split: sum.splits)
    have 2: "ghosts_ok (Nsph s1) (Nghost s1) (sphdata s1) \<and> Nsph s1 = Nsph s \<and>
         Nghost s \<le> Nghost s1"
      using "1.prems"(1-4) True by (intro ghost_body_ok [OF _ _ _ _ b]) auto
    have "ghosts_ok (Nsph s') (Nghost s') (sphdata s') \<and> Nsph s' = Nsph s1 \<and>
         Nghost s1 \<le> Nghost s'"
      using "1.prems"(2-4) 2 by (intro "1.IH" [OF True b _ _ _ _ l]) auto
    with 2 show ?thesis by auto
  qed
qed

lemma ghost_dim_ok:
  assumes "ghosts_ok (Nsph s) (Nghost s) (sphdata s)" and "Ntot s \<le> Nsph s + Nghost s"
    and "0 \<le> Nghost s" and "ghost_dim ok kr simbox k lhs rhs s = Inr s'"
  shows "ghosts_ok (Nsph s') (Nghost s') (sphdata s') \<and> Ntot s' \<le> Nsph s' + Nghost s' \<and>
         0 \<le> Nghost s'"
proof (cases "ok \<and> \<not> (lhs = ''open'' \<and> rhs = ''open'')")
  case False
  with assms show ?thesis by (auto simp: ghost_dim_def)
next
  case True
  with assms(4) obtain s1 where l: "ghost_loop kr simbox k lhs rhs 0 (Ntot s) s = Inr s1"
    and s': "s' = s1\<lparr>Ntot := Nsph s1 + Nghost s1\<rparr>"
    by (auto simp: ghost_dim_def split: sum.splits if_splits)
  have "ghosts_ok (Nsph s1) (Nghost s1) (sphdata s1) \<and> Nsph s1 = Nsph s \<and> Nghost s \<le> Nghost s1"
    using assms(1-3) by (intro ghost_loop_ok [OF _ _ _ _ l]) auto
  then have "ghosts_ok (Nsph s1) (Nghost s1) (sphdata s1)" and "0 \<le> Nghost s1"
    using assms(3) by auto
  then show ?thesis by (simp add: s')
qed

lemma SearchGhostParticles_ok:
  assumes "SearchGhostParticles ndim kr simbox sph = Inr s'"
  shows "ghosts_ok (Nsph s') (Nghost s') (sphdata s')"
proof -
  define s0 where "s0 = sph\<lparr>Nghost := 0, Nghostmax := Nsphmax sph - Nsph sph, Ntot := Nsph sph\<rparr>"
  have 0: "ghosts_ok (Nsph s0) (Nghost s0) (sphdata s0) \<and> Ntot s0 \<le> Nsph s0 + Nghost s0 \<and>
      0 \<le> Nghost s0"
    by (simp add: s0_def ghosts_ok_def)
  show ?thesis
  proof (cases "s' = s0")
    case True
    with 0 show ?thesis by simp
  next
    case False
    with assms obtain s1 s2 where
      1: "ghost_dim True kr simbox 0 (x_boundary_lhs simbox) (x_boundary_rhs simbox) s0 = Inr s1"
      and 2: "ghost_dim (ndim \<ge> 2) kr simbox 1 (y_boundary_lhs simbox) (y_boundary_rhs simbox) s1 = Inr s2"
      and 3: "ghost_dim (ndim = 3) kr simbox 2 (z_boundary_lhs simbox) (z_boundary_rhs simbox) s2 = Inr s'"
      unfolding SearchGhostParticles_def Let_def s0_def [symmetric]
      by (auto split: if_splits sum.splits)
    have i1: "ghosts_ok (Nsph s1) (Nghost s1) (sphdata s1) \<and> Ntot s1 \<le> Nsph s1 + Nghost s1 \<and>
         0 \<le> Nghost s1"
      using 0 by (intro ghost_dim_ok [OF _ _ _ 1]) auto
    have i2: "ghosts_ok (Nsph s2) (Nghost s2) (sphdata s2) \<and> Ntot s2 \<le> Nsph s2 + Nghost s2 \<and>
         0 \<le> Nghost s2"
      using i1 by (intro ghost_dim_ok [OF _ _ _ 2]) auto
    show ?thesis
      using i2 ghost_dim_ok [OF _ _ _ 3] by auto
  qed
qed

section \<open>Copying state to the ghosts: results\<close>

lemma CopySphDataToGhosts_body_other:
  "x \<noteq> nsph + j \<Longrightarrow> CopySphDataToGhosts_body ndim nsph j sd x = sd x"
  by (simp add: CopySphDataToGhosts_body_def Let_def)

lemma CopySphDataToGhosts_body_at:
  "CopySphDataToGhosts_body ndim nsph j sd (nsph + j) =
     (sd (part_iorig (sd (nsph + j))))
       \<lparr>part_iorig := part_iorig (sd (nsph + j)),
        part_active := False,
        part_r := (\<lambda>k. if k < ndim then part_r (sd (nsph + j)) k
                       else part_r (sd (part_iorig (sd (nsph + j)))) k),
        part_v := (\<lambda>k. if k < ndim then part_v (sd (nsph + j)) k
                       else part_v (sd (part_iorig (sd (nsph + j)))) k)\<rparr>"
  by (simp add: CopySphDataToGhosts_body_def Let_def cong: if_cong)

lemma CopySphDataToGhosts_loop_other:
  "\<not> (nsph + j \<le> x \<and> x < nsph + n) \<Longrightarrow> CopySphDataToGhosts_loop ndim nsph j n sd x = sd x"
proof (induction ndim nsph j n sd rule: CopySphDataToGhosts_loop.induct)
  case (1 ndim nsph j n sd)
  show ?case
  proof (cases "j < n")
    case False
    then show ?thesis by (simp add: CopySphDataToGhosts_loop.simps)
  next
    case True
    have "CopySphDataToGhosts_loop ndim nsph j n sd x =
        CopySphDataToGhosts_loop ndim nsph (j + 1) n (CopySphDataToGhosts_body ndim nsph j sd) x"
      using True by (subst CopySphDataToGhosts_loop.simps) simp
    also have "\<dots> = CopySphDataToGhosts_body ndim nsph j sd x"
      using "1.prems" by (intro "1.IH" [OF True]) auto
    also have "\<dots> = sd x"
      using "1.prems" True by (intro CopySphDataToGhosts_body_other) auto
    finally show ?thesis .
  qed
qed

lemma CopySphDataToGhosts_loop_flags:
  "part_iorig (CopySphDataToGhosts_loop ndim nsph j n sd x) = part_iorig (sd x) \<and>
   (nsph + j \<le> x \<and> x < nsph + n \<longrightarrow> \<not> part_active (CopySphDataToGhosts_loop ndim nsph j n sd x))"
proof (induction ndim nsph j n sd rule: CopySphDataToGhosts_loop.induct)
  case (1 ndim nsph j n sd)
  show ?case
  proof (cases "j < n")
    case False
    then show ?thesis by (auto simp: CopySphDataToGhosts_loop.simps)
  next
    case True
    let ?sd = "CopySphDataToGhosts_body ndim nsph j sd"
    have u: "CopySphDataToGhosts_loop ndim nsph j n sd x =
        CopySphDataToGhosts_loop ndim nsph (j + 1) n ?sd x"
      using True by (subst CopySphDataToGhosts_loop.simps) simp
    have b: "part_iorig (?sd x) = part_iorig (sd x)"
      by (cases "x = nsph + j")
        (simp_all add: CopySphDataToGhosts_body_at CopySphDataToGhosts_body_other)
    show ?thesis
    proof (cases "x = nsph + j")
      case True
      then have "CopySphDataToGhosts_loop ndim nsph (j + 1) n ?sd x = ?sd x"
        by (intro CopySphDataToGhosts_loop_other) auto
      then show ?thesis
        using True b u by (simp add: CopySphDataToGhosts_body_at)
    next
      case False
      then show ?thesis
        using "1.IH" [OF True] b u by auto
    qed
  qed
qed

lemma CopySphDataToGhosts_loop_at:
  "nsph + j \<le> x \<Longrightarrow> x < nsph + n \<Longrightarrow>
   \<not> (nsph + j \<le> part_iorig (sd x) \<and> part_iorig (sd x) < nsph + n) \<Longrightarrow>
   CopySphDataToGhosts_loop ndim nsph j n sd x =
     (sd (part_iorig (sd x)))
       \<lparr>part_iorig := part_iorig (sd x),
        part_active := False,
        part_r := (\<lambda>k. if k < ndim then part_r (sd x) k else part_r (sd (part_iorig (sd x))) k),
        part_v := (\<lambda>k. if k < ndim then part_v (sd x) k else part_v (sd (part_iorig (sd x))) k)\<rparr>"
proof (induction ndim nsph j n sd rule: CopySphDataToGhosts_loop.induct)
  case (1 ndim nsph j n sd)
  from "1.prems" have jn: "j < n" by simp
  let ?sd = "CopySphDataToGhosts_body ndim nsph j sd"
  have u: "CopySphDataToGhosts_loop ndim nsph j n sd x =
      CopySphDataToGhosts_loop ndim nsph (j + 1) n ?sd x"
    using jn by (subst CopySphDataToGhosts_loop.simps) simp
  show ?case
  proof (cases "x = nsph + j")
    case True
    then have "CopySphDataToGhosts_loop ndim nsph (j + 1) n ?sd x = ?sd x"
      by (intro CopySphDataToGhosts_loop_other) auto
    then show ?thesis
      using True u by (simp add: CopySphDataToGhosts_body_at cong: if_cong)
  next
    case False
    have sx: "?sd x = sd x"
      using False by (rule CopySphDataToGhosts_body_other)
    have sp: "?sd (part_iorig (sd x)) = sd (part_iorig (sd x))"
      using "1.prems" jn by (intro CopySphDataToGhosts_body_other) auto
    show ?thesis
      unfolding u
      using "1.IH" [OF jn] False "1.prems" by (simp add: sx sp cong: if_cong)
  qed
qed

lemma shift_r_keeps:
  "part_iorig (shift_r k d p) = part_iorig p \<and> part_itype (shift_r k d p) = part_itype p \<and>
   part_active (shift_r k d p) = part_active p"
  by (simp add: shift_r_def)

lemma mirror_rv_keeps:
  "part_iorig (mirror_rv k b p) = part_iorig p \<and> part_itype (mirror_rv k b p) = part_itype p \<and>
   part_active (mirror_rv k b p) = part_active p"
  by (simp add: mirror_rv_def Let_def)

lemma ghost_modify_keeps:
  "part_iorig (ghost_modify ndim simbox t p) = part_iorig p \<and>
   part_itype (ghost_modify ndim simbox t p) = part_itype p \<and>
   part_active (ghost_modify ndim simbox t p) = part_active p"
  by (simp add: ghost_modify_def shift_r_keeps mirror_rv_keeps)

text \<open>On the kinds that exist in \<open>ndim\<close> dimensions the code's chain is the specified transform.\<close>

lemma ghost_modify_spec:
  assumes "ndim \<le> 3" and "\<forall>d. ghost_axis t = Some d \<longrightarrow> d < ndim"
  shows "ghost_modify ndim simbox t p =
     p\<lparr>part_r := spec_transform_r simbox t (part_r p), part_v := spec_transform_v t (part_v p)\<rparr>"
  using assms
  by (cases t)
    (auto simp: ghost_modify_def shift_r_def mirror_rv_def Let_def spec_transform_r_def
      spec_transform_v_def ghost_is_mirror_def ghost_is_lhs_def)

lemma CopyDataToGhosts_body_other:
  "x \<noteq> nh + j \<Longrightarrow> CopyDataToGhosts_body ndim simbox nh j pd x = pd x"
  by (simp add: CopyDataToGhosts_body_def Let_def)

lemma CopyDataToGhosts_body_at:
  "CopyDataToGhosts_body ndim simbox nh j pd (nh + j) =
     ghost_modify ndim simbox (part_itype (pd (nh + j)))
       ((pd (part_iorig (pd (nh + j))))
          \<lparr>part_iorig := part_iorig (pd (nh + j)),
           part_itype := part_itype (pd (nh + j)), part_active := False\<rparr>)"
  by (simp add: CopyDataToGhosts_body_def Let_def)

lemma CopyDataToGhosts_loop_other:
  "\<not> (nh + j \<le> x \<and> x < nh + n) \<Longrightarrow> CopyDataToGhosts_loop ndim simbox nh j n pd x = pd x"
proof (induction ndim simbox nh j n pd rule: CopyDataToGhosts_loop.induct)
  case (1 ndim simbox nh j n pd)
  show ?case
  proof (cases "j < n")
    case False
    then show ?thesis by (simp add: CopyDataToGhosts_loop.simps)
  next
    case True
    have "CopyDataToGhosts_loop ndim simbox nh j n pd x =
        CopyDataToGhosts_loop ndim simbox nh (j + 1) n (CopyDataToGhosts_body ndim simbox nh j pd) x"
      using True by (subst CopyDataToGhosts_loop.simps) simp
    also have "\<dots> = CopyDataToGhosts_body ndim simbox nh j pd x"
      using "1.prems" by (intro "1.IH" [OF True]) auto
    also have "\<dots> = pd x"
      using "1.prems" True by (intro CopyDataToGhosts_body_other) auto
    finally show ?thesis .
  qed
qed

lemma CopyDataToGhosts_loop_flags:
  "part_iorig (CopyDataToGhosts_loop ndim simbox nh j n pd x) = part_iorig (pd x) \<and>
   (nh + j \<le> x \<and> x < nh + n \<longrightarrow> \<not> part_active (CopyDataToGhosts_loop ndim simbox nh j n pd x))"
proof (induction ndim simbox nh j n pd rule: CopyDataToGhosts_loop.induct)
  case (1 ndim simbox nh j n pd)
  show ?case
  proof (cases "j < n")
    case False
    then show ?thesis by (auto simp: CopyDataToGhosts_loop.simps)
  next
    case True
    let ?pd = "CopyDataToGhosts_body ndim simbox nh j pd"
    have u: "CopyDataToGhosts_loop ndim simbox nh j n pd x =
        CopyDataToGhosts_loop ndim simbox nh (j + 1) n ?pd x"
      using True by (subst CopyDataToGhosts_loop.simps) simp
    have b: "part_iorig (?pd x) = part_iorig (pd x)"
      by (cases "x = nh + j")
        (simp_all add: CopyDataToGhosts_body_at CopyDataToGhosts_body_other ghost_modify_keeps)
    show ?thesis
    proof (cases "x = nh + j")
      case True
      then have "CopyDataToGhosts_loop ndim simbox nh (j + 1) n ?pd x = ?pd x"
        by (intro CopyDataToGhosts_loop_other) auto
      then show ?thesis
        using True b u by (simp add: CopyDataToGhosts_body_at ghost_modify_keeps)
    next
      case False
      then show ?thesis
        using "1.IH" [OF True] b u by auto
    qed
  qed
qed

lemma CopyDataToGhosts_loop_at:
  "nh + j \<le> x \<Longrightarrow> x < nh + n \<Longrightarrow>
   \<not> (nh + j \<le> part_iorig (pd x) \<and> part_iorig (pd x) < nh + n) \<Longrightarrow>
   CopyDataToGhosts_loop ndim simbox nh j n pd x =
     ghost_modify ndim simbox (part_itype (pd x))
       ((pd (part_iorig (pd x)))
          \<lparr>part_iorig := part_iorig (pd x),
           part_itype := part_itype (pd x), part_active := False\<rparr>)"
proof (induction ndim simbox nh j n pd rule: CopyDataToGhosts_loop.induct)
  case (1 ndim simbox nh j n pd)
  from "1.prems" have jn: "j < n" by simp
  let ?pd = "CopyDataToGhosts_body ndim simbox nh j pd"
  have u: "CopyDataToGhosts_loop ndim simbox nh j n pd x =
      CopyDataToGhosts_loop ndim simbox nh (j + 1) n ?pd x"
    using jn by (subst CopyDataToGhosts_loop.simps) simp
  show ?case
  proof (cases "x = nh + j")
    case True
    then have "CopyDataToGhosts_loop ndim simbox nh (j + 1) n ?pd x = ?pd x"
      by (intro CopyDataToGhosts_loop_other) auto
    then show ?thesis
      using True u by (simp add: CopyDataToGhosts_body_at)
  next
    case False
    have sx: "?pd x = pd x"
      using False by (rule CopyDataToGhosts_body_other)
    have sp: "?pd (part_iorig (pd x)) = pd (part_iorig (pd x))"
      using "1.prems" jn by (intro CopyDataToGhosts_body_other) auto
    show ?thesis
      unfolding u
      using "1.IH" [OF jn] False "1.prems" by (simp add: sx sp cong: if_cong)
  qed
qed

text \<open>
  Claim C10: the ghost search leaves every ghost inactive with \<open>iorig\<close> the index of a real
  particle (\<open>0 \<le> iorig < Nsph\<close>); a single ghost creation from a valid source index keeps
  this and chases \<open>iorig\<close> through a ghost source; both refresh routines keep it.
\<close>

theorem ghost_iorig_is_real:
  "(SearchGhostParticles ndim kr simbox sph = Inr s' \<longrightarrow>
      ghosts_ok (Nsph s') (Nghost s') (sphdata s')) \<and>
   (ghosts_ok (Nsph s) (Nghost s) (sphdata s) \<and> 0 \<le> i \<and> i < Nsph s + Nghost s \<and>
    0 \<le> Nghost s \<and> CreateGhostParticle s i k rk vk bd = Inr s2 \<longrightarrow>
      ghosts_ok (Nsph s2) (Nghost s2) (sphdata s2) \<and> Nghost s2 = Nghost s + 1 \<and>
      part_iorig (sphdata s2 (Nsph s + Nghost s)) =
        (if i < Nsph s then i else part_iorig (sphdata s i))) \<and>
   (ghosts_ok (Nsph s) (Nghost s) (sphdata s) \<longrightarrow>
      ghosts_ok (Nsph s) (Nghost s) (sphdata (CopySphDataToGhosts ndim s))) \<and>
   (ghosts_ok nh ng pd \<longrightarrow> ghosts_ok nh ng (CopyDataToGhosts ndim nh ng simbox pd))"
proof (intro conjI impI)
  assume "SearchGhostParticles ndim kr simbox sph = Inr s'"
  then show "ghosts_ok (Nsph s') (Nghost s') (sphdata s')"
    by (rule SearchGhostParticles_ok)
next
  assume a: "ghosts_ok (Nsph s) (Nghost s) (sphdata s) \<and> 0 \<le> i \<and> i < Nsph s + Nghost s \<and>
    0 \<le> Nghost s \<and> CreateGhostParticle s i k rk vk bd = Inr s2"
  then have c: "ghosts_ok (Nsph s2) (Nghost s2) (sphdata s2) \<and> Nsph s2 = Nsph s \<and>
         Nghost s2 = Nghost s + 1 \<and>
         part_iorig (sphdata s2 (Nsph s + Nghost s)) =
           (if i < Nsph s then i else part_iorig (sphdata s i))"
    by (intro CreateGhostParticle_ok) auto
  from c show "ghosts_ok (Nsph s2) (Nghost s2) (sphdata s2)" by blast
  from c show "Nghost s2 = Nghost s + 1" by blast
  from c show "part_iorig (sphdata s2 (Nsph s + Nghost s)) =
        (if i < Nsph s then i else part_iorig (sphdata s i))" by blast
next
  assume "ghosts_ok (Nsph s) (Nghost s) (sphdata s)"
  then show "ghosts_ok (Nsph s) (Nghost s) (sphdata (CopySphDataToGhosts ndim s))"
    using CopySphDataToGhosts_loop_flags [of ndim "Nsph s" 0 "Nghost s" "sphdata s"]
    by (simp add: ghosts_ok_def CopySphDataToGhosts_def)
next
  assume "ghosts_ok nh ng pd"
  then show "ghosts_ok nh ng (CopyDataToGhosts ndim nh ng simbox pd)"
    using CopyDataToGhosts_loop_flags [of ndim simbox nh 0 ng pd]
    by (simp add: ghosts_ok_def CopyDataToGhosts_def)
qed

theorem ghost_iorig_is_real_witness:
  "(case SearchGhostParticles 2 2 xy_box corner_sph of
      Inl e \<Rightarrow> False
    | Inr s \<Rightarrow> Nsph s = 1 \<and> Nghost s = 3 \<and>
        part_r (sphdata s 3) 0 = 21 / 20 \<and> part_r (sphdata s 3) 1 = 21 / 20 \<and>
        part_iorig (sphdata s 3) = 0 \<and>
        ghosts_ok (Nsph s) (Nghost s) (sphdata s) \<and>
        ghosts_ok (Nsph s) (Nghost s) (sphdata (CopySphDataToGhosts 2 s)) \<and>
        ghosts_ok 1 3 (CopyDataToGhosts 2 1 3 xy_box (sphdata s)))"
proof -
  have "\<exists>s. SearchGhostParticles 2 2 xy_box corner_sph = Inr s \<and> Nsph s = 1 \<and> Nghost s = 3 \<and>
      part_r (sphdata s 3) 0 = 21 / 20 \<and> part_r (sphdata s 3) 1 = 21 / 20 \<and>
      part_iorig (sphdata s 3) = 0"
    by (simp add: CreateGhostParticle_def SearchGhostParticles_def ghost_dim_def ghost_loop.simps
        ghost_body_def ghost_lhs_def ghost_rhs_def ghost_range_def Let_def
        corner_sph_def corner_part_def xy_box_def)
  then obtain s where s: "SearchGhostParticles 2 2 xy_box corner_sph = Inr s"
    and v: "Nsph s = 1 \<and> Nghost s = 3 \<and>
      part_r (sphdata s 3) 0 = 21 / 20 \<and> part_r (sphdata s 3) 1 = 21 / 20 \<and>
      part_iorig (sphdata s 3) = 0"
    by blast
  have ok: "ghosts_ok (Nsph s) (Nghost s) (sphdata s)"
    using ghost_iorig_is_real [where ndim = 2 and kr = 2 and simbox = xy_box
        and sph = corner_sph and s' = s] s by blast
  have ok2: "ghosts_ok (Nsph s) (Nghost s) (sphdata (CopySphDataToGhosts 2 s))"
    using ghost_iorig_is_real [where s = s and ndim = 2] ok by blast
  have "ghosts_ok 1 3 (sphdata s)"
    using ok v by simp
  then have ok3: "ghosts_ok 1 3 (CopyDataToGhosts 2 1 3 xy_box (sphdata s))"
    using ghost_iorig_is_real [where nh = 1 and ng = 3 and pd = "sphdata s" and ndim = 2
        and simbox = xy_box] by blast
  show ?thesis
    using s v ok ok2 ok3 by simp
qed

text \<open>
  Claim C2, as stated, fails for \<open>Simulation::CopySphDataToGhosts\<close>: the ghost gets the
  parent's state but keeps its own old position, which is no longer the image of the
  parent's current position under the ghost's transform.
\<close>

theorem CopySphDataToGhosts_keeps_old_position_counterexample:
  "part_iorig (sphdata (CopySphDataToGhosts 1 drifted_sph) 1) = 0 \<and>
   part_h (sphdata (CopySphDataToGhosts 1 drifted_sph) 1) = 1 / 4 \<and>
   part_r (sphdata (CopySphDataToGhosts 1 drifted_sph) 1) 0 = 11 / 10 \<and>
   spec_transform_r periodic_box x_lhs_periodic
     (part_r (sphdata (CopySphDataToGhosts 1 drifted_sph) 0)) 0 = 6 / 5 \<and>
   part_v (sphdata (CopySphDataToGhosts 1 drifted_sph) 1) 0 = 4 \<and>
   part_v (sphdata (CopySphDataToGhosts 1 drifted_sph) 0) 0 = 5"
  by (simp add: CopySphDataToGhosts_def CopySphDataToGhosts_loop.simps
      CopySphDataToGhosts_body_def Let_def drifted_sph_def drifted_parent_def stale_ghost_def
      spec_transform_r_def ghost_is_mirror_def ghost_is_lhs_def periodic_box_def)

text \<open>
  Claim C2, amended. After \<open>MfvRungeKutta::CopyDataToGhosts\<close>, a ghost whose parent is a real
  particle and whose kind lies in one of the \<open>ndim\<close> dimensions is the parent's current
  state with \<open>active = false\<close>, its own \<open>iorig\<close> and \<open>itype\<close>, the transform of its kind
  applied to the parent's position and the mirror-axis velocity component negated.
  After \<open>Simulation::CopySphDataToGhosts\<close>, a ghost whose parent is a real particle is the
  parent's current state with \<open>active = false\<close> and its own \<open>iorig\<close>, but with the position
  and velocity components the ghost had before the call.
\<close>

theorem CopyDataToGhosts_ghost_state:
  "(nh \<le> x \<and> x < nh + ng \<and> part_iorig (pd x) < nh \<and> ndim \<le> 3 \<and>
    (\<forall>d. ghost_axis (part_itype (pd x)) = Some d \<longrightarrow> d < ndim) \<longrightarrow>
      CopyDataToGhosts ndim nh ng simbox pd (part_iorig (pd x)) = pd (part_iorig (pd x)) \<and>
      CopyDataToGhosts ndim nh ng simbox pd x =
        (CopyDataToGhosts ndim nh ng simbox pd (part_iorig (pd x)))
          \<lparr>part_r := spec_transform_r simbox (part_itype (pd x))
              (part_r (CopyDataToGhosts ndim nh ng simbox pd (part_iorig (pd x)))),
           part_v := spec_transform_v (part_itype (pd x))
              (part_v (CopyDataToGhosts ndim nh ng simbox pd (part_iorig (pd x)))),
           part_active := False,
           part_iorig := part_iorig (pd x),
           part_itype := part_itype (pd x)\<rparr>) \<and>
   (Nsph s \<le> x \<and> x < Nsph s + Nghost s \<and> part_iorig (sphdata s x) < Nsph s \<longrightarrow>
      sphdata (CopySphDataToGhosts ndim s) (part_iorig (sphdata s x)) =
        sphdata s (part_iorig (sphdata s x)) \<and>
      sphdata (CopySphDataToGhosts ndim s) x =
        (sphdata (CopySphDataToGhosts ndim s) (part_iorig (sphdata s x)))
          \<lparr>part_r := (\<lambda>k. if k < ndim then part_r (sphdata s x) k
              else part_r (sphdata (CopySphDataToGhosts ndim s) (part_iorig (sphdata s x))) k),
           part_v := (\<lambda>k. if k < ndim then part_v (sphdata s x) k
              else part_v (sphdata (CopySphDataToGhosts ndim s) (part_iorig (sphdata s x))) k),
           part_active := False,
           part_iorig := part_iorig (sphdata s x)\<rparr>)"
proof (intro conjI impI)
  assume a: "nh \<le> x \<and> x < nh + ng \<and> part_iorig (pd x) < nh \<and> ndim \<le> 3 \<and>
    (\<forall>d. ghost_axis (part_itype (pd x)) = Some d \<longrightarrow> d < ndim)"
  show p: "CopyDataToGhosts ndim nh ng simbox pd (part_iorig (pd x)) = pd (part_iorig (pd x))"
    unfolding CopyDataToGhosts_def using a by (intro CopyDataToGhosts_loop_other) auto
  have "CopyDataToGhosts ndim nh ng simbox pd x =
     ghost_modify ndim simbox (part_itype (pd x))
       ((pd (part_iorig (pd x)))
          \<lparr>part_iorig := part_iorig (pd x),
           part_itype := part_itype (pd x), part_active := False\<rparr>)"
    unfolding CopyDataToGhosts_def using a by (intro CopyDataToGhosts_loop_at) auto
  also have "\<dots> = (pd (part_iorig (pd x)))
          \<lparr>part_r := spec_transform_r simbox (part_itype (pd x)) (part_r (pd (part_iorig (pd x)))),
           part_v := spec_transform_v (part_itype (pd x)) (part_v (pd (part_iorig (pd x)))),
           part_active := False,
           part_iorig := part_iorig (pd x),
           part_itype := part_itype (pd x)\<rparr>"
    using a by (subst ghost_modify_spec) auto
  finally show "CopyDataToGhosts ndim nh ng simbox pd x =
        (CopyDataToGhosts ndim nh ng simbox pd (part_iorig (pd x)))
          \<lparr>part_r := spec_transform_r simbox (part_itype (pd x))
              (part_r (CopyDataToGhosts ndim nh ng simbox pd (part_iorig (pd x)))),
           part_v := spec_transform_v (part_itype (pd x))
              (part_v (CopyDataToGhosts ndim nh ng simbox pd (part_iorig (pd x)))),
           part_active := False,
           part_iorig := part_iorig (pd x),
           part_itype := part_itype (pd x)\<rparr>"
    unfolding p .
next
  assume a: "Nsph s \<le> x \<and> x < Nsph s + Nghost s \<and> part_iorig (sphdata s x) < Nsph s"
  show p: "sphdata (CopySphDataToGhosts ndim s) (part_iorig (sphdata s x)) =
        sphdata s (part_iorig (sphdata s x))"
    using a by (simp add: CopySphDataToGhosts_def CopySphDataToGhosts_loop_other)
  have "sphdata (CopySphDataToGhosts ndim s) x =
     (sphdata s (part_iorig (sphdata s x)))
       \<lparr>part_iorig := part_iorig (sphdata s x),
        part_active := False,
        part_r := (\<lambda>k. if k < ndim then part_r (sphdata s x) k
           else part_r (sphdata s (part_iorig (sphdata s x))) k),
        part_v := (\<lambda>k. if k < ndim then part_v (sphdata s x) k
           else part_v (sphdata s (part_iorig (sphdata s x))) k)\<rparr>"
    using a by (simp add: CopySphDataToGhosts_def CopySphDataToGhosts_loop_at)
  then show "sphdata (CopySphDataToGhosts ndim s) x =
        (sphdata (CopySphDataToGhosts ndim s) (part_iorig (sphdata s x)))
          \<lparr>part_r := (\<lambda>k. if k < ndim then part_r (sphdata s x) k
              else part_r (sphdata (CopySphDataToGhosts ndim s) (part_iorig (sphdata s x))) k),
           part_v := (\<lambda>k. if k < ndim then part_v (sphdata s x) k
              else part_v (sphdata (CopySphDataToGhosts ndim s) (part_iorig (sphdata s x))) k),
           part_active := False,
           part_iorig := part_iorig (sphdata s x)\<rparr>"
    unfolding p by simp
qed

theorem CopyDataToGhosts_ghost_state_witness:
  "part_r (CopyDataToGhosts 1 1 1 mirror_box mirror_partdata 1) 0 = - 1 / 5 \<and>
   part_v (CopyDataToGhosts 1 1 1 mirror_box mirror_partdata 1) 0 = - 5 \<and>
   part_h (CopyDataToGhosts 1 1 1 mirror_box mirror_partdata 1) = 1 / 4 \<and>
   \<not> part_active (CopyDataToGhosts 1 1 1 mirror_box mirror_partdata 1) \<and>
   part_r (sphdata (CopySphDataToGhosts 1 drifted_sph) 1) 0 = 11 / 10 \<and>
   part_h (sphdata (CopySphDataToGhosts 1 drifted_sph) 1) = 1 / 4"
  using CopyDataToGhosts_ghost_state [where nh = 1 and x = 1 and ng = 1 and
      pd = mirror_partdata and ndim = 1 and s = drifted_sph and simbox = mirror_box]
  by (simp add: mirror_partdata_def mirror_ghost_def drifted_parent_def drifted_sph_def
      stale_ghost_def spec_transform_r_def spec_transform_v_def ghost_is_mirror_def
      ghost_is_lhs_def mirror_box_def)

section \<open>Smoothing-length solver: results\<close>

lemma ComputeH_neib_keeps:
  "part_m (ComputeH_neib cfg m drsqd q j p) = part_m p \<and>
   part_h (ComputeH_neib cfg m drsqd q j p) = part_h p \<and>
   part_gpot (ComputeH_neib cfg m drsqd q j p) = part_gpot p \<and>
   part_invh (ComputeH_neib cfg m drsqd q j p) = part_invh p \<and>
   part_hfactor (ComputeH_neib cfg m drsqd q j p) = part_hfactor p"
  by (simp add: ComputeH_neib_def Let_def)

lemma fold_ComputeH_neib_keeps:
  "part_m (fold (ComputeH_neib cfg m drsqd q) js p) = part_m p \<and>
   part_h (fold (ComputeH_neib cfg m drsqd q) js p) = part_h p \<and>
   part_gpot (fold (ComputeH_neib cfg m drsqd q) js p) = part_gpot p \<and>
   part_invh (fold (ComputeH_neib cfg m drsqd q) js p) = part_invh p \<and>
   part_hfactor (fold (ComputeH_neib cfg m drsqd q) js p) = part_hfactor p"
  by (induction js arbitrary: p) (simp_all add: ComputeH_neib_keeps)

text \<open>What the density pass leaves in the fields that the rest of the loop body reads.\<close>

lemma ComputeH_density_fields:
  "part_h (fst (ComputeH_density cfg n m drsqd part)) = part_h part \<and>
   part_m (fst (ComputeH_density cfg n m drsqd part)) = part_m part \<and>
   part_gpot (fst (ComputeH_density cfg n m drsqd part)) = part_gpot part \<and>
   part_invh (fst (ComputeH_density cfg n m drsqd part)) = 1 / part_h part \<and>
   snd (ComputeH_density cfg n m drsqd part) = (1 / part_h part) * (1 / part_h part) \<and>
   part_volume (fst (ComputeH_density cfg n m drsqd part)) =
     1 / part_ndens (fst (ComputeH_density cfg n m drsqd part)) \<and>
   part_rho (fst (ComputeH_density cfg n m drsqd part)) =
     part_m part * part_ndens (fst (ComputeH_density cfg n m drsqd part))"
  by (simp add: ComputeH_density_def Let_def fold_ComputeH_neib_keeps)

lemma ComputeH_density_volume:
  assumes "part_m part \<noteq> 0"
  shows "part_volume (fst (ComputeH_density cfg n m drsqd part)) =
     part_m (fst (ComputeH_density cfg n m drsqd part)) /
       part_rho (fst (ComputeH_density cfg n m drsqd part))"
  using assms by (simp add: ComputeH_density_fields)

text \<open>
  Claim C3, as stated, fails in the bracket phase: when the number density is below
  \<open>small_number\<close> the code lowers the upper bound although the particle is not over-dense.
  Here the only neighbour lies outside the kernel, the pass is the 31st, and the code goes to
  \<open>h = 1/2\<close> with bracket \<open>(0, 1)\<close> where the specified rule goes to \<open>h = 3/2\<close> with \<open>(1, 2)\<close>.
\<close>

theorem h_update_small_ndens_counterexample:
  "(case ComputeH_step mfv1 1 2 unit_m far_drsqd 30 0 2 (gas_part\<lparr>part_h := 1\<rparr>) of
      Inr (Again k lo hi p) \<Rightarrow> k = 31 \<and> lo = 0 \<and> hi = 1 \<and> part_h p = 1 / 2
    | _ \<Rightarrow> False) \<and>
   (case h_update_spec mfv1 31 0 2
           (fst (ComputeH_density mfv1 1 unit_m far_drsqd (gas_part\<lparr>part_h := 1\<rparr>))) of
      Inr (lo, hi, p) \<Rightarrow> lo = 1 \<and> hi = 2 \<and> part_h p = 3 / 2
    | _ \<Rightarrow> False)"
  by (simp add: mfv1_def gas_part_def tophat_def unit_m_def far_drsqd_def
      ComputeH_density_def ComputeH_neib_def Let_def h_converged_def
      h_update_def h_update_spec_def iteration_max_def ComputeH_step_def)

text \<open>
  Claim C3, amended: for iteration counts \<open>k < 30\<close> the update is
  \<open>h \<leftarrow> h_fac * pow(volume, invndim)\<close>, where \<open>volume = m / rho\<close> after the density pass;
  at \<open>k = 30\<close> it is \<open>h \<leftarrow> (h_lo + h_hi) / 2\<close>; for \<open>30 < k < 150\<close> the upper bound becomes
  \<open>h\<close> if \<open>ndens < small_number\<close> or \<open>ndens * h^ndim > h_fac^ndim\<close>, otherwise the lower bound
  becomes \<open>h\<close>, and \<open>h\<close> is the midpoint of the new bracket; for \<open>k \<ge> 150\<close> the error is
  raised.
\<close>

theorem h_update_schedule:
  "(k < 30 \<longrightarrow> h_update cfg k lo hi p =
      Inr (lo, hi, p\<lparr>part_h := h_fac cfg * c_pow cfg (part_volume p) (invndim cfg)\<rparr>)) \<and>
   (k = 30 \<longrightarrow> h_update cfg k lo hi p = Inr (lo, hi, p\<lparr>part_h := (lo + hi) / 2\<rparr>)) \<and>
   (30 < k \<and> k < 150 \<longrightarrow> h_update cfg k lo hi p =
      (if part_ndens p < small_number cfg \<or>
          part_ndens p * c_pow cfg (part_h p) (real (mfv_ndim cfg)) >
            c_pow cfg (h_fac cfg) (real (mfv_ndim cfg))
       then Inr (lo, part_h p, p\<lparr>part_h := (lo + part_h p) / 2\<rparr>)
       else Inr (part_h p, hi, p\<lparr>part_h := (part_h p + hi) / 2\<rparr>))) \<and>
   (150 \<le> k \<longrightarrow> h_update cfg k lo hi p = Inl HIterationDiverged) \<and>
   (part_m part \<noteq> 0 \<longrightarrow>
      part_volume (fst (ComputeH_density cfg n m drsqd part)) =
        part_m (fst (ComputeH_density cfg n m drsqd part)) /
          part_rho (fst (ComputeH_density cfg n m drsqd part)))"
  by (simp add: h_update_def iteration_max_def ComputeH_density_volume)

theorem h_update_schedule_witness:
  "h_update mfv1 1 0 2 (gas_part\<lparr>part_volume := 1 / 10\<rparr>) =
     Inr (0, 2, gas_part\<lparr>part_volume := 1 / 10, part_h := 19 / 200\<rparr>) \<and>
   h_update mfv1 30 0 2 gas_part = Inr (0, 2, gas_part\<lparr>part_h := 1\<rparr>) \<and>
   h_update mfv1 31 0 2 (gas_part\<lparr>part_ndens := 20\<rparr>) =
     Inr (0, 1 / 10, gas_part\<lparr>part_ndens := 20, part_h := 1 / 20\<rparr>) \<and>
   h_update mfv1 31 0 2 (gas_part\<lparr>part_ndens := 5\<rparr>) =
     Inr (1 / 10, 2, gas_part\<lparr>part_ndens := 5, part_h := 21 / 20\<rparr>) \<and>
   h_update mfv1 150 0 2 gas_part = Inl HIterationDiverged \<and>
   part_volume (fst (ComputeH_density mfv1 1 unit_m near_drsqd gas_part)) = 1 / 10"
  using h_update_schedule [where k = 1 and cfg = mfv1 and lo = 0 and hi = 2
      and p = "gas_part\<lparr>part_volume := 1 / 10\<rparr>" and part = gas_part and n = 1
      and m = unit_m and drsqd = near_drsqd]
    h_update_schedule [where k = 30 and cfg = mfv1 and lo = 0 and hi = 2 and p = gas_part]
    h_update_schedule [where k = 31 and cfg = mfv1 and lo = 0 and hi = 2
      and p = "gas_part\<lparr>part_ndens := 20\<rparr>"]
    h_update_schedule [where k = 31 and cfg = mfv1 and lo = 0 and hi = 2
      and p = "gas_part\<lparr>part_ndens := 5\<rparr>"]
    h_update_schedule [where k = 150 and cfg = mfv1 and lo = 0 and hi = 2 and p = gas_part]
  by (simp add: mfv1_def gas_part_def ComputeH_density_fields ComputeH_density_def
      ComputeH_neib_def Let_def tophat_def unit_m_def near_drsqd_def)

text \<open>
  Claim C4, as stated, fails: the tolerance of the code is \<open>h_converge\<close> itself, not
  \<open>h_converge * h\<close>. With \<open>h = 0.1\<close>, \<open>h_fac * (m/rho) = 0.095\<close> and \<open>h_converge = 0.01\<close> the
  loop is left by the convergence test although \<open>0.005 < 0.001\<close> is false.
\<close>

theorem h_converged_absolute_counterexample:
  "(case ComputeH_step mfv1 1 1 unit_m near_drsqd 0 0 1 gas_part of
      Inr (Converged p q) \<Rightarrow>
        part_h p = 1 / 10 \<and> part_rho p = 10 \<and> part_m p = 1 \<and> \<not> h_converged_spec mfv1 0 p
    | _ \<Rightarrow> False)"
  by (simp add: mfv1_def gas_part_def tophat_def unit_m_def near_drsqd_def
      ComputeH_density_def ComputeH_neib_def Let_def h_converged_def h_converged_spec_def
      h_update_def iteration_max_def ComputeH_step_def)

text \<open>
  Claim C4, amended: a pass of the loop ends it through the convergence test exactly when,
  for the density of that pass, \<open>rho > 0\<close>, \<open>h\<close> is above the lower bound and
  \<open>|h - h_fac * (m/rho)^invndim| < h_converge\<close>, an absolute tolerance (for a particle of
  non-zero mass; \<open>h\<close> is the value on entry to the pass).
\<close>

theorem ComputeH_step_converged_iff:
  "part_m part \<noteq> 0 \<longrightarrow>
   ((\<exists>p q. ComputeH_step cfg Nneib hmax m drsqd it lo hi part = Inr (Converged p q)) \<longleftrightarrow>
    (part_rho (fst (ComputeH_density cfg Nneib m drsqd part)) > 0 \<and> part_h part > lo \<and>
     \<bar>part_h part - h_fac cfg *
        c_pow cfg (part_m part / part_rho (fst (ComputeH_density cfg Nneib m drsqd part)))
          (invndim cfg)\<bar> < h_converge cfg))"
proof
  assume m: "part_m part \<noteq> 0"
  let ?p = "fst (ComputeH_density cfg Nneib m drsqd part)"
  have v: "part_volume ?p = part_m part / part_rho ?p"
    using ComputeH_density_volume [OF m, of cfg Nneib m drsqd]
    by (simp add: ComputeH_density_fields)
  have c: "h_converged cfg lo ?p \<longleftrightarrow>
    (part_rho ?p > 0 \<and> part_h part > lo \<and>
     \<bar>part_h part - h_fac cfg * c_pow cfg (part_m part / part_rho ?p) (invndim cfg)\<bar>
       < h_converge cfg)"
    unfolding h_converged_def v by (simp add: ComputeH_density_fields)
  have "(\<exists>p q. ComputeH_step cfg Nneib hmax m drsqd it lo hi part = Inr (Converged p q)) \<longleftrightarrow>
      h_converged cfg lo ?p"
    by (auto simp: ComputeH_step_def Let_def split: sum.splits prod.splits if_splits)
  then show "(\<exists>p q. ComputeH_step cfg Nneib hmax m drsqd it lo hi part = Inr (Converged p q)) \<longleftrightarrow>
    (part_rho ?p > 0 \<and> part_h part > lo \<and>
     \<bar>part_h part - h_fac cfg * c_pow cfg (part_m part / part_rho ?p) (invndim cfg)\<bar>
       < h_converge cfg)"
    using c by simp
qed

theorem ComputeH_step_converged_iff_witness:
  "part_m gas_part \<noteq> 0 \<and>
   (\<exists>p q. ComputeH_step mfv1 1 1 unit_m near_drsqd 0 0 1 gas_part = Inr (Converged p q)) \<and>
   \<not> (\<exists>p q. ComputeH_step mfv1 1 1 unit_m near_drsqd 0 0 1 (gas_part\<lparr>part_h := 1 / 2\<rparr>) =
        Inr (Converged p q))"
  using ComputeH_step_converged_iff [where part = gas_part and cfg = mfv1 and Nneib = 1
      and hmax = 1 and m = unit_m and drsqd = near_drsqd and it = 0 and lo = 0 and hi = 1]
    ComputeH_step_converged_iff [where part = "gas_part\<lparr>part_h := 1 / 2\<rparr>" and cfg = mfv1
      and Nneib = 1 and hmax = 1 and m = unit_m and drsqd = near_drsqd and it = 0 and lo = 0
      and hi = 1]
  by (simp add: mfv1_def gas_part_def tophat_def unit_m_def near_drsqd_def
      ComputeH_density_def ComputeH_neib_def Let_def)

lemma potmin_neib_gpot: "part_gpot (potmin_neib cfg drsqd gpot q j p) = part_gpot p"
  by (simp add: potmin_neib_def)











section \<open>Godunov fluxes: results\<close>

lemma Godunov_pair_dQdt:
  assumes "Godunov_pair cfg part nb = Inr (part', nb')"
  shows "part_dQdt part' = (\<lambda>var. if var < nvar cfg
            then part_dQdt part var -
              DotProduct (Godunov_flux cfg part nb var) (Godunov_Aij cfg part nb) (mfv_ndim cfg)
            else part_dQdt part var)"
    and "part_dQdt nb' = (\<lambda>var. if var < nvar cfg
            then part_dQdt nb var +
              DotProduct (Godunov_flux cfg part nb var) (Godunov_Aij cfg part nb) (mfv_ndim cfg)
            else part_dQdt nb var)"
  using assms by (auto simp: Godunov_pair_def Let_def split: if_splits)

text \<open>
  Over the whole loop, what is taken from the particle is what the neighbours receive: the
  sum of \<open>dQdt\<close> over the particle and any finite index set holding the neighbours is kept.
\<close>

lemma Godunov_loop_conserves:
  assumes "Godunov_loop cfg neiblist jjs part neibpart = Inr (part', neibpart')"
    and "finite J" and "neiblist ` set jjs \<subseteq> J" and "var < nvar cfg"
  shows "part_dQdt part' var + (\<Sum>j\<in>J. part_dQdt (neibpart' j) var) =
         part_dQdt part var + (\<Sum>j\<in>J. part_dQdt (neibpart j) var)"
  using assms
proof (induction jjs arbitrary: part neibpart)
  case Nil
  then show ?case by simp
next
  case (Cons jj jjs)
  from Cons.prems(1) obtain p1 nb1 where
    pr: "Godunov_pair cfg part (neibpart (neiblist jj)) = Inr (p1, nb1)"
    and l: "Godunov_loop cfg neiblist jjs p1 (neibpart(neiblist jj := nb1)) = Inr (part', neibpart')"
    by (auto split: sum.splits)
  let ?j = "neiblist jj"
  let ?D = "DotProduct (Godunov_flux cfg part (neibpart ?j) var)
      (Godunov_Aij cfg part (neibpart ?j)) (mfv_ndim cfg)"
  have jJ: "?j \<in> J" using Cons.prems(3) by auto
  have a: "part_dQdt p1 var = part_dQdt part var - ?D"
    using Godunov_pair_dQdt(1) [OF pr] Cons.prems(4) by simp
  have b: "part_dQdt nb1 var = part_dQdt (neibpart ?j) var + ?D"
    using Godunov_pair_dQdt(2) [OF pr] Cons.prems(4) by simp
  have "(\<Sum>j\<in>J. part_dQdt ((neibpart(?j := nb1)) j) var) =
      part_dQdt nb1 var + (\<Sum>j\<in>J - {?j}. part_dQdt ((neibpart(?j := nb1)) j) var)"
    using Cons.prems(2) jJ by (subst sum.remove [of J ?j]) auto
  also have "(\<Sum>j\<in>J - {?j}. part_dQdt ((neibpart(?j := nb1)) j) var) =
      (\<Sum>j\<in>J - {?j}. part_dQdt (neibpart j) var)"
    by (intro sum.cong) auto
  finally have s: "(\<Sum>j\<in>J. part_dQdt ((neibpart(?j := nb1)) j) var) =
      (\<Sum>j\<in>J. part_dQdt (neibpart j) var) + ?D"
    using Cons.prems(2) jJ b by (subst (2) sum.remove [of J ?j]) auto
  have "part_dQdt part' var + (\<Sum>j\<in>J. part_dQdt (neibpart' j) var) =
      part_dQdt p1 var + (\<Sum>j\<in>J. part_dQdt ((neibpart(?j := nb1)) j) var)"
    using Cons.prems(2-4) by (intro Cons.IH [OF l]) auto
  with a s show ?case by simp
qed

text \<open>
  Claim C5: for a neighbour \<open>j\<close> that the loop processes without a failed assertion, the
  amount subtracted from \<open>dQdt\<close> of the particle is the amount added to \<open>dQdt\<close> of the
  neighbour, for every variable: both are the dot product of the same flux with the same
  \<open>Aij\<close>. Over the whole routine the particle's \<open>dQdt\<close>, which starts at zero, is minus the
  total received by the neighbours.
\<close>

theorem Godunov_pair_antisymmetric:
  "(Godunov_pair cfg part nb = Inr (part', nb') \<longrightarrow>
     (\<forall>var < nvar cfg.
        part_dQdt part' var = part_dQdt part var -
          DotProduct (Godunov_flux cfg part nb var) (Godunov_Aij cfg part nb) (mfv_ndim cfg) \<and>
        part_dQdt nb' var = part_dQdt nb var +
          DotProduct (Godunov_flux cfg part nb var) (Godunov_Aij cfg part nb) (mfv_ndim cfg) \<and>
        part_dQdt part' var - part_dQdt part var = - (part_dQdt nb' var - part_dQdt nb var))) \<and>
   (ComputeGodunovFlux cfg Nneib neiblist part neibpart = Inr (part_end, neibs_end) \<and>
    finite J \<and> neiblist ` {..< nat Nneib} \<subseteq> J \<longrightarrow>
     (\<forall>var < nvar cfg.
        part_dQdt part_end var =
          - (\<Sum>j\<in>J. part_dQdt (neibs_end j) var - part_dQdt (neibpart j) var)))"
proof -
  have 1: "Godunov_pair cfg part nb = Inr (part', nb') \<longrightarrow>
     (\<forall>var < nvar cfg.
        part_dQdt part' var = part_dQdt part var -
          DotProduct (Godunov_flux cfg part nb var) (Godunov_Aij cfg part nb) (mfv_ndim cfg) \<and>
        part_dQdt nb' var = part_dQdt nb var +
          DotProduct (Godunov_flux cfg part nb var) (Godunov_Aij cfg part nb) (mfv_ndim cfg) \<and>
        part_dQdt part' var - part_dQdt part var = - (part_dQdt nb' var - part_dQdt nb var))"
    using Godunov_pair_dQdt [of cfg part nb part' nb'] by simp
  have 2: "\<forall>var < nvar cfg. part_dQdt part_end var =
          - (\<Sum>j\<in>J. part_dQdt (neibs_end j) var - part_dQdt (neibpart j) var)"
    if a: "ComputeGodunovFlux cfg Nneib neiblist part neibpart = Inr (part_end, neibs_end) \<and>
      finite J \<and> neiblist ` {..< nat Nneib} \<subseteq> J"
  proof (intro allI impI)
    fix var
    assume v: "var < nvar cfg"
    let ?p0 = "part\<lparr>part_dQdt := (\<lambda>var. if var < nvar cfg then 0 else part_dQdt part var)\<rparr>"
    have "part_dQdt part_end var + (\<Sum>j\<in>J. part_dQdt (neibs_end j) var) =
           part_dQdt ?p0 var + (\<Sum>j\<in>J. part_dQdt (neibpart j) var)"
      using a v
      by (intro Godunov_loop_conserves [where jjs = "[0 ..< nat Nneib]" and neiblist = neiblist])
        (auto simp: ComputeGodunovFlux_def lessThan_atLeast0)
    then show "part_dQdt part_end var =
            - (\<Sum>j\<in>J. part_dQdt (neibs_end j) var - part_dQdt (neibpart j) var)"
      using v by (simp add: sum_subtractf)
  qed
  show ?thesis
    using 1 2 by blast
qed

theorem Godunov_pair_antisymmetric_witness:
  "(\<exists>p n. Godunov_pair mfv1 left_gas right_gas = Inr (p, n) \<and>
      part_dQdt p 1 - part_dQdt left_gas 1 = - (part_dQdt n 1 - part_dQdt right_gas 1)) \<and>
   (\<exists>p ns. ComputeGodunovFlux mfv1 1 (\<lambda>jj. 4) left_gas (\<lambda>j. right_gas) = Inr (p, ns) \<and>
      part_dQdt p 1 = - (part_dQdt (ns 4) 1 - part_dQdt right_gas 1))"
proof -
  have n3: "(1::nat) < nvar mfv1"
    by (simp add: mfv1_def)
  have "\<exists>p n. Godunov_pair mfv1 left_gas right_gas = Inr (p, n)"
    by (simp add: Godunov_pair_def Godunov_Wleft_def Godunov_Wright_def Let_def
        mfv1_def left_gas_def right_gas_def gas_part_def)
  then obtain p n where pn: "Godunov_pair mfv1 left_gas right_gas = Inr (p, n)"
    by blast
  have 1: "part_dQdt p 1 - part_dQdt left_gas 1 = - (part_dQdt n 1 - part_dQdt right_gas 1)"
    using Godunov_pair_antisymmetric [where cfg = mfv1 and part = left_gas and nb = right_gas
        and part' = p and nb' = n] pn n3
    by blast
  have "\<exists>p ns. ComputeGodunovFlux mfv1 1 (\<lambda>jj. 4) left_gas (\<lambda>j. right_gas) = Inr (p, ns)"
    by (simp add: ComputeGodunovFlux_def Godunov_pair_def Godunov_Wleft_def Godunov_Wright_def
        Let_def mfv1_def left_gas_def right_gas_def gas_part_def)
  then obtain p2 ns where
    c: "ComputeGodunovFlux mfv1 1 (\<lambda>jj. 4) left_gas (\<lambda>j. right_gas) = Inr (p2, ns)"
    by blast
  have img: "finite {4::int} \<and> (\<lambda>jj::nat. 4::int) ` {..< nat 1} \<subseteq> {4}"
    by auto
  have "\<forall>var < nvar mfv1. part_dQdt p2 var =
      - (\<Sum>j\<in>{4}. part_dQdt (ns j) var - part_dQdt right_gas var)"
    using Godunov_pair_antisymmetric [where cfg = mfv1 and Nneib = 1 and neiblist = "\<lambda>jj. 4"
        and part = left_gas and neibpart = "\<lambda>j. right_gas" and part_end = p2
        and neibs_end = ns and J = "{4}"] c img
    by blast
  then have 2: "part_dQdt p2 1 = - (part_dQdt (ns 4) 1 - part_dQdt right_gas 1)"
    using n3 by simp
  show ?thesis
    using pn 1 c 2 by blast
qed

section \<open>Neighbour buffers: results\<close>







section \<open>The bound on the number of passes does not change a result\<close>





section \<open>The loop on hmax: results\<close>








text \<open>
  A return value of \<open>-1\<close> from \<open>ComputeH\<close> is not the retry code: the loop is left after
  the pass, with the particle as \<open>ComputeH\<close> found it.
\<close>

lemma UpdateCell_minus_one_ends_loop:
  "(case UpdateCell 3 sink_cell sink_pdata scratch1 of
      Some (Inr (trace, pd, sc)) \<Rightarrow> trace = [(21 / 200, [- 1])] \<and> part_h (pd 0) = 1 / 10
    | _ \<Rightarrow> False)"
  by (simp add: sink_cell_def sink_pdata_def one_cell_def scratch1_def new_array_def aget_def
      aset_def gather_query_def realloc_scratch_def gather_with_retry_def gather_retry.simps
      copy_neib_def gather_neib_def cell_pass_def UpdateCell_def DotProduct_def
      hmax_loop.simps mfv1_def gas_part_def Let_def ComputeH_def)

end
